theory Spec2Isabelle
  imports Main "HOL-Library.Sublist"
begin

section \<open>Scroll-driven background cross-fade of main.js\<close>

text \<open>
  The development embeds module 3 of main.js (\<^verbatim>\<open>scrollDrivenBackground\<close>, with its
  two variants \<^verbatim>\<open>globalBG\<close> and \<^verbatim>\<open>chaptersBG\<close>) and the layer creation of module 0
  (\<^verbatim>\<open>bootstrap\<close>, steps 0b and 0d). The DOM is passed explicitly: every element the
  script reads or writes is a value of the record \<open>element\<close>, and the closures of the
  two IntersectionObserver callbacks become state records. What the browser reads back
  after an assignment to \<^verbatim>\<open>style.backgroundImage\<close> is computed for addresses of common
  characters and is a parameter of the model for all others.
\<close>

subsection \<open>Strings and JavaScript truthiness\<close>

text \<open>
  \<^verbatim>\<open>String.prototype.includes\<close>: \<open>str_includes s t\<close> is \<^verbatim>\<open>s.includes(t)\<close>, true when
  \<open>t\<close> occurs in \<open>s\<close> as a contiguous run of characters.
\<close>

fun str_includes :: "string \<Rightarrow> string \<Rightarrow> bool" where
  "str_includes [] t = (t = [])"
| "str_includes (c # s) t = (prefix t (c # s) \<or> str_includes s t)"

text \<open>The template literal \<^verbatim>\<open>`url('${url}')`\<close>; \<open>CHR 0x27\<close> is the single quote.\<close>

definition css_url :: "string \<Rightarrow> string" where
  "css_url url = ''url('' @ [CHR 0x27] @ url @ [CHR 0x27] @ '')''"

text \<open>
  Reading \<^verbatim>\<open>style.backgroundImage\<close> gives the value the browser parsed, written out
  again by the CSSOM rules: the address between double quotes (\<open>CHR 0x22\<close>), with every
  double quote of the address preceded by a backslash (\<open>CHR 0x5C\<close>). The model
  computes this for an address of letters, digits, the punctuation of \<open>url_chars\<close> and
  double quotes: a CSS string between apostrophes holds these characters as they are.
\<close>

definition url_chars :: string where
  "url_chars =
     ''abcdefghijklmnopqrstuvwxyzABCDEFGHIJKLMNOPQRSTUVWXYZ0123456789-._~/:?#@!$&*+,;=%''"

definition css_plain :: "string \<Rightarrow> bool" where
  "css_plain url = list_all (\<lambda>c. c \<in> set url_chars) url"

definition css_kept :: "string \<Rightarrow> bool" where
  "css_kept url = list_all (\<lambda>c. c \<in> set url_chars \<or> c = CHR 0x22) url"

fun css_escape :: "string \<Rightarrow> string" where
  "css_escape [] = []"
| "css_escape (c # cs) = (if c = CHR 0x22 then [CHR 0x5C, CHR 0x22] else [c]) @ css_escape cs"

definition url_text :: "string \<Rightarrow> string" where
  "url_text url = ''url('' @ [CHR 0x22] @ css_escape url @ [CHR 0x22] @ '')''"

text \<open>
  For an address with any other character (an apostrophe, a backslash, a line break, a
  space, a character outside ASCII) the outcome depends on the rest of the CSS grammar
  and on the browser. It is the parameter \<open>css\<close>: from the text assigned to
  \<^verbatim>\<open>style.backgroundImage\<close> to the text read back afterwards, or \<open>None\<close> when the
  browser finds the text invalid and drops the assignment.
\<close>

type_synonym cssom = "string \<Rightarrow> string option"

definition read_back :: "cssom \<Rightarrow> string \<Rightarrow> string option" where
  "read_back css url = (if css_kept url then Some (url_text url) else css (css_url url))"

text \<open>
  \<^verbatim>\<open>getAttribute\<close> returns \<^verbatim>\<open>null\<close> (here \<open>None\<close>) or a string. Both \<^verbatim>\<open>null\<close> and the
  empty string are falsy.
\<close>

definition truthy :: "string option \<Rightarrow> bool" where
  "truthy a = (case a of None \<Rightarrow> False | Some v \<Rightarrow> v \<noteq> [])"

text \<open>\<^verbatim>\<open>a || null\<close> and \<^verbatim>\<open>a || b\<close> for a string \<open>b\<close>.\<close>

definition or_null :: "string option \<Rightarrow> string option" where
  "or_null a = (if truthy a then a else None)"

definition or_else :: "string option \<Rightarrow> string \<Rightarrow> string" where
  "or_else a b = (case a of None \<Rightarrow> b | Some v \<Rightarrow> if v = [] then b else v)"

text \<open>\<^verbatim>\<open>String(n)\<close> for a non-negative integer: its decimal digits.\<close>

definition digit :: "nat \<Rightarrow> char" where
  "digit d = ''0123456789'' ! d"

fun String_of_nat :: "nat \<Rightarrow> string" where
  "String_of_nat n =
     (if n < 10 then [digit n] else String_of_nat (n div 10) @ [digit (n mod 10)])"

declare String_of_nat.simps [simp del]

subsection \<open>Elements\<close>

text \<open>
  An element carries what the script touches: its class list, the three data
  attributes read with \<^verbatim>\<open>getAttribute\<close>, and the inline style properties
  \<^verbatim>\<open>backgroundImage\<close>, \<^verbatim>\<open>height\<close> and the custom property \<^verbatim>\<open>--bg-tint\<close>. The field
  \<open>style_backgroundImage\<close> is the text that reading \<^verbatim>\<open>style.backgroundImage\<close> gives. An
  unset property reads as the empty string (\<open>None\<close> for the custom property).
\<close>

record element =
  classList :: "string list"
  data_idx :: "string option"
  data_bg :: "string option"
  data_tint :: "string option"
  style_backgroundImage :: string
  style_height :: string
  style_bg_tint :: "string option"

text \<open>
  \<^verbatim>\<open>el(tag, cls)\<close> and \<^verbatim>\<open>document.createElement\<close> followed by \<^verbatim>\<open>className = cls\<close>: a fresh
  \<^verbatim>\<open>div\<close> whose class list holds the tokens of \<open>cls\<close>.
\<close>

definition el :: "string list \<Rightarrow> element" where
  "el cls = \<lparr>classList = cls, data_idx = None, data_bg = None, data_tint = None,
     style_backgroundImage = [], style_height = [], style_bg_tint = None\<rparr>"

definition classList_contains :: "string \<Rightarrow> element \<Rightarrow> bool" where
  "classList_contains c n = (c \<in> set (classList n))"

definition classList_add :: "string \<Rightarrow> element \<Rightarrow> element" where
  "classList_add c n = (if c \<in> set (classList n) then n else n\<lparr>classList := classList n @ [c]\<rparr>)"

definition classList_remove :: "string \<Rightarrow> element \<Rightarrow> element" where
  "classList_remove c n = n\<lparr>classList := removeAll c (classList n)\<rparr>"

text \<open>\<^verbatim>\<open>classList.toggle(c, force)\<close> with the second argument given.\<close>

definition classList_toggle :: "string \<Rightarrow> bool \<Rightarrow> element \<Rightarrow> element" where
  "classList_toggle c force n = (if force then classList_add c n else classList_remove c n)"

text \<open>A layer or panel is marked active (current) when it has the class \<^verbatim>\<open>is-active\<close>.\<close>

definition is_active :: "element \<Rightarrow> bool" where
  "is_active n = classList_contains ''is-active'' n"

text \<open>
  \<^verbatim>\<open>n.style.backgroundImage = `url('${url}')`\<close>: the property takes the value the browser
  parsed; a text the browser drops leaves the property as it was.
\<close>

definition set_backgroundImage :: "cssom \<Rightarrow> string \<Rightarrow> element \<Rightarrow> element" where
  "set_backgroundImage css url n =
     (case read_back css url of
        None \<Rightarrow> n
      | Some v \<Rightarrow> n\<lparr>style_backgroundImage := v\<rparr>)"

text \<open>
  \<^verbatim>\<open>preload(url)\<close> creates an \<^verbatim>\<open>Image\<close> and sets its source. The model keeps the list of
  the sources requested so far.
\<close>

definition preload :: "string option \<Rightarrow> string list \<Rightarrow> string list" where
  "preload url reqs = (if \<not> truthy url then reqs else reqs @ [or_else url []])"

text \<open>An \<^verbatim>\<open>IntersectionObserverEntry\<close>: the flag and the observed marker.\<close>

record entry =
  isIntersecting :: bool
  target :: element

subsection \<open>Variant A: the global background\<close>

text \<open>
  The closure of the callback of \<^verbatim>\<open>globalBG\<close>: the two layers, the overlay (which may
  be missing), the variable \<^verbatim>\<open>useA\<close>, and the images requested by \<^verbatim>\<open>preload\<close>. The
  selectors \<^verbatim>\<open>.g-bgA\<close> and \<^verbatim>\<open>.g-bgB\<close> are taken to match two different elements.
\<close>

record globalBG_state =
  layerA :: element
  layerB :: element
  overlay :: "element option"
  useA :: bool
  requested :: "string list"

definition active_layer :: "globalBG_state \<Rightarrow> element" where
  "active_layer s = (if useA s then layerA s else layerB s)"

definition inactive_layer :: "globalBG_state \<Rightarrow> element" where
  "inactive_layer s = (if useA s then layerB s else layerA s)"

text \<open>A write through the reference \<^verbatim>\<open>active\<close> or \<^verbatim>\<open>inactive\<close>.\<close>

definition upd_active :: "(element \<Rightarrow> element) \<Rightarrow> globalBG_state \<Rightarrow> globalBG_state" where
  "upd_active f s = (if useA s then s\<lparr>layerA := f (layerA s)\<rparr> else s\<lparr>layerB := f (layerB s)\<rparr>)"

definition upd_inactive :: "(element \<Rightarrow> element) \<Rightarrow> globalBG_state \<Rightarrow> globalBG_state" where
  "upd_inactive f s = (if useA s then s\<lparr>layerB := f (layerB s)\<rparr> else s\<lparr>layerA := f (layerA s)\<rparr>)"

text \<open>\<^verbatim>\<open>if (overlay && tint) overlay.style.setProperty('--bg-tint', tint)\<close>\<close>

definition set_tint :: "string option \<Rightarrow> globalBG_state \<Rightarrow> globalBG_state" where
  "set_tint tint s =
     (case overlay s of
        None \<Rightarrow> s
      | Some ov \<Rightarrow> if truthy tint then s\<lparr>overlay := Some (ov\<lparr>style_bg_tint := tint\<rparr>)\<rparr> else s)"

text \<open>The four statements of the swap, in the order of the source (lines 462 to 466).\<close>

definition swap_layers :: "cssom \<Rightarrow> string \<Rightarrow> globalBG_state \<Rightarrow> globalBG_state" where
  "swap_layers css url s =
     (let s1 = s\<lparr>requested := preload (Some url) (requested s)\<rparr>;
          s2 = upd_inactive (set_backgroundImage css url) s1;
          s3 = upd_inactive (classList_add ''is-active'') s2;
          s4 = upd_active (classList_remove ''is-active'') s3
      in s4\<lparr>useA := \<not> useA s4\<rparr>)"

text \<open>The body of \<^verbatim>\<open>entries.forEach\<close> in the callback of \<^verbatim>\<open>globalBG\<close>, for one entry.\<close>

definition globalBG_entry :: "cssom \<Rightarrow> globalBG_state \<Rightarrow> entry \<Rightarrow> globalBG_state" where
  "globalBG_entry css s e =
     (if \<not> isIntersecting e then s
      else
        let url = data_bg (target e);
            tint = or_null (data_tint (target e))
        in if \<not> truthy url then s
           else if str_includes (or_else (Some (style_backgroundImage (active_layer s))) [])
                     (or_else url [])
           then set_tint tint s
           else set_tint tint (swap_layers css (or_else url []) s))"

text \<open>The callback on a batch of entries, and on the entries of successive batches.\<close>

definition globalBG_callback :: "cssom \<Rightarrow> globalBG_state \<Rightarrow> entry list \<Rightarrow> globalBG_state" where
  "globalBG_callback css s entries = foldl (globalBG_entry css) s entries"

subsection \<open>Variant B: the pinned chapters\<close>

text \<open>
  The closure of the callback of \<^verbatim>\<open>chaptersBG\<close>: the two layers (both exist once lines
  494 and 495 have run, so the test \<^verbatim>\<open>active && inactive\<close> of line 551 always passes),
  the content panels, \<^verbatim>\<open>chapters.dataset.active\<close>, the variable \<^verbatim>\<open>useA\<close> and the
  images requested by \<^verbatim>\<open>preload\<close>.
\<close>

record chaptersBG_state =
  bgA :: element
  bgB :: element
  panels :: "element list"
  dataset_active :: string
  c_useA :: bool
  c_requested :: "string list"

definition c_active_layer :: "chaptersBG_state \<Rightarrow> element" where
  "c_active_layer s = (if c_useA s then bgA s else bgB s)"

definition c_inactive_layer :: "chaptersBG_state \<Rightarrow> element" where
  "c_inactive_layer s = (if c_useA s then bgB s else bgA s)"

definition c_upd_active :: "(element \<Rightarrow> element) \<Rightarrow> chaptersBG_state \<Rightarrow> chaptersBG_state" where
  "c_upd_active f s = (if c_useA s then s\<lparr>bgA := f (bgA s)\<rparr> else s\<lparr>bgB := f (bgB s)\<rparr>)"

definition c_upd_inactive :: "(element \<Rightarrow> element) \<Rightarrow> chaptersBG_state \<Rightarrow> chaptersBG_state" where
  "c_upd_inactive f s = (if c_useA s then s\<lparr>bgB := f (bgB s)\<rparr> else s\<lparr>bgA := f (bgA s)\<rparr>)"

text \<open>
  \<^verbatim>\<open>setActivePanel(idx)\<close>: the index is stored, and every panel gets or loses the class
  \<^verbatim>\<open>is-active\<close> as its \<^verbatim>\<open>data-idx\<close> is or is not the index (\<^verbatim>\<open>null === String(idx)\<close> is
  false).
\<close>

definition setActivePanel :: "string \<Rightarrow> chaptersBG_state \<Rightarrow> chaptersBG_state" where
  "setActivePanel idx s =
     s\<lparr>dataset_active := idx,
       panels := map (\<lambda>p. classList_toggle ''is-active'' (data_idx p = Some idx) p) (panels s)\<rparr>"

definition c_swap_layers :: "cssom \<Rightarrow> string \<Rightarrow> chaptersBG_state \<Rightarrow> chaptersBG_state" where
  "c_swap_layers css nextURL s =
     (let s1 = s\<lparr>c_requested := preload (Some nextURL) (c_requested s)\<rparr>;
          s2 = c_upd_inactive (set_backgroundImage css nextURL) s1;
          s3 = c_upd_inactive (classList_add ''is-active'') s2;
          s4 = c_upd_active (classList_remove ''is-active'') s3
      in s4\<lparr>c_useA := \<not> c_useA s4\<rparr>)"

text \<open>The body of \<^verbatim>\<open>entries.forEach\<close> in the callback of \<^verbatim>\<open>chaptersBG\<close>, for one entry.\<close>

definition chaptersBG_entry :: "cssom \<Rightarrow> chaptersBG_state \<Rightarrow> entry \<Rightarrow> chaptersBG_state" where
  "chaptersBG_entry css s e =
     (if \<not> isIntersecting e then s
      else
        let idx = or_else (data_idx (target e)) [];
            nextURL = data_bg (target e)
        in if \<not> truthy nextURL then s
           else if str_includes (or_else (Some (style_backgroundImage (c_active_layer s))) [])
                     (or_else nextURL [])
           then setActivePanel idx s
           else setActivePanel idx (c_swap_layers css (or_else nextURL []) s))"

definition chaptersBG_callback :: "cssom \<Rightarrow> chaptersBG_state \<Rightarrow> entry list \<Rightarrow> chaptersBG_state" where
  "chaptersBG_callback css s entries = foldl (chaptersBG_entry css) s entries"

subsection \<open>The page, its bootstrap and the start of the two variants\<close>

text \<open>
  What the selectors find on the page: the first \<^verbatim>\<open>.global-bg\<close> with its \<^verbatim>\<open>.g-bgA\<close>,
  \<^verbatim>\<open>.g-bgB\<close> and \<^verbatim>\<open>.g-overlay\<close>; the \<^verbatim>\<open>.bg-chapter\<close> markers in document order (those
  present after step 0c of the bootstrap); the first \<^verbatim>\<open>.chapters\<close> with its layers,
  its \<^verbatim>\<open>.chap-content\<close> panels, its \<^verbatim>\<open>.chapter\<close> markers and its \<^verbatim>\<open>data-active\<close>
  attribute.
\<close>

record global_bg_el =
  g_bgA :: "element option"
  g_bgB :: "element option"
  g_overlay :: "element option"

record chapters_el =
  chapters_bgA :: "element option"
  chapters_bgB :: "element option"
  chap_content :: "element list"
  chapter_markers :: "element list"
  data_active :: "string option"

record page =
  global_bg :: "global_bg_el option"
  bg_chapter :: "element list"
  chapters :: "chapters_el option"

text \<open>
  Steps 0b and 0d of \<^verbatim>\<open>bootstrap\<close>: a missing \<^verbatim>\<open>.global-bg\<close> is created with its two
  layers and its overlay; a \<^verbatim>\<open>.chapters\<close> block with neither layer gets both. Steps 0a
  (reveal classes) and 0c (default section markers) are outside the model.
\<close>

definition bootstrap_layers :: "page \<Rightarrow> page" where
  "bootstrap_layers d =
     d\<lparr>global_bg :=
         (case global_bg d of
            None \<Rightarrow> Some \<lparr>g_bgA = Some (el [''g-bg'', ''g-bgA'', ''is-active'']),
                          g_bgB = Some (el [''g-bg'', ''g-bgB'']),
                          g_overlay = Some (el [''g-overlay''])\<rparr>
          | Some r \<Rightarrow> Some r),
       chapters :=
         (case chapters d of
            None \<Rightarrow> None
          | Some ch \<Rightarrow>
              if chapters_bgA ch = None \<and> chapters_bgB ch = None
              then Some (ch\<lparr>chapters_bgA := Some (el [''chapters-bg'', ''chapters-bgA'', ''is-active'']),
                            chapters_bgB := Some (el [''chapters-bg'', ''chapters-bgB''])\<rparr>)
              else Some ch)\<rparr>"

text \<open>
  \<^verbatim>\<open>initFirstBG\<close>: the image of the first \<^verbatim>\<open>.bg-chapter\<close> marker is written on layer A
  and preloaded.
\<close>

definition initFirstBG :: "cssom \<Rightarrow> element list \<Rightarrow> globalBG_state \<Rightarrow> globalBG_state" where
  "initFirstBG css markers s =
     (case markers of
        [] \<Rightarrow> s
      | firstMarker # _ \<Rightarrow>
          let url = data_bg firstMarker
          in if truthy url
             then s\<lparr>layerA := set_backgroundImage css (or_else url []) (layerA s),
                    requested := preload url (requested s)\<rparr>
             else s)"

text \<open>
  A variant either returns before it creates its observer, leaving the part of the
  page it was given as it then is, or it runs: it has a state and a list of observed
  markers.
\<close>

datatype ('d, 's) started = NotStarted 'd | Running 's "element list"

text \<open>
  \<^verbatim>\<open>globalBG\<close> up to the calls of \<^verbatim>\<open>io.observe\<close>: a marker without an inline height gets
  \<^verbatim>\<open>120px\<close> before it is observed.
\<close>

definition globalBG :: "cssom \<Rightarrow> global_bg_el option \<Rightarrow> element list
    \<Rightarrow> (global_bg_el option \<times> element list, globalBG_state) started" where
  "globalBG css globalRoot globalMarkers =
     (case globalRoot of
        None \<Rightarrow> NotStarted (globalRoot, globalMarkers)
      | Some r \<Rightarrow>
          if globalMarkers = [] then NotStarted (globalRoot, globalMarkers)
          else
            (case g_bgA r of
               None \<Rightarrow> NotStarted (globalRoot, globalMarkers)
             | Some a \<Rightarrow>
                 (case g_bgB r of
                    None \<Rightarrow> NotStarted (globalRoot, globalMarkers)
                  | Some b \<Rightarrow>
                      Running
                        (initFirstBG css globalMarkers
                           \<lparr>layerA = a, layerB = b, overlay = g_overlay r, useA = True,
                            requested = []\<rparr>)
                        (map (\<lambda>m. if style_height m = [] then m\<lparr>style_height := ''120px''\<rparr> else m)
                           globalMarkers))))"

text \<open>
  The marker that \<^verbatim>\<open>chaptersBG\<close> creates for panel \<open>p\<close> at position \<open>i\<close> (from 0), and
  the panel after \<^verbatim>\<open>if (!p.getAttribute('data-idx')) p.setAttribute('data-idx', idx)\<close>.
\<close>

definition synth_marker :: "nat \<Rightarrow> element \<Rightarrow> element" where
  "synth_marker i p =
     (let idx = String_of_nat (i + 1);
          fromPanel = data_bg p;
          fallback = (if i mod 2 = 0 then ''background-photos/black.jpeg''
                      else ''background-photos/white.jpeg'')
      in (el [''chapter''])\<lparr>data_idx := Some idx, data_bg := Some (or_else fromPanel fallback),
            style_height := ''140vh''\<rparr>)"

definition index_panel :: "nat \<Rightarrow> element \<Rightarrow> element" where
  "index_panel i p =
     (if \<not> truthy (data_idx p) then p\<lparr>data_idx := Some (String_of_nat (i + 1))\<rparr> else p)"

text \<open>
  \<^verbatim>\<open>chaptersBG\<close> up to the calls of \<^verbatim>\<open>io2.observe\<close>. Missing layers are created. With no
  \<^verbatim>\<open>.chapter\<close> marker and at least one panel, one marker per panel is created, in panel
  order. The markers are observed as they are.
\<close>

definition chaptersBG :: "chapters_el option \<Rightarrow> (chapters_el option, chaptersBG_state) started" where
  "chaptersBG chaps =
     (case chaps of
        None \<Rightarrow> NotStarted None
      | Some ch \<Rightarrow>
          let a = (case chapters_bgA ch of
                     None \<Rightarrow> el [''chapters-bg'', ''chapters-bgA'', ''is-active'']
                   | Some n \<Rightarrow> n);
              b = (case chapters_bgB ch of
                     None \<Rightarrow> el [''chapters-bg'', ''chapters-bgB'']
                   | Some n \<Rightarrow> n);
              synth = (chapter_markers ch = [] \<and> chap_content ch \<noteq> []);
              ps = (if synth then map (\<lambda>(i, p). index_panel i p) (enumerate 0 (chap_content ch))
                    else chap_content ch);
              liveMarkers =
                (if synth then map (\<lambda>(i, p). synth_marker i p) (enumerate 0 (chap_content ch))
                 else chapter_markers ch)
          in if liveMarkers = []
             then NotStarted (Some (ch\<lparr>chapters_bgA := Some a, chapters_bgB := Some b\<rparr>))
             else
               Running
                 (setActivePanel (or_else (data_active ch) ''1'')
                    \<lparr>bgA = a, bgB = b, panels = ps,
                     dataset_active = or_else (data_active ch) ''1'',
                     c_useA = True, c_requested = []\<rparr>)
                 liveMarkers)"

text \<open>
  \<^verbatim>\<open>scrollDrivenBackground\<close>: with the reduced-motion preference nothing is started.
  (\<^verbatim>\<open>headerThemeAuto\<close>, which writes only the header, is outside the model.)
\<close>

record engine =
  variantA :: "(global_bg_el option \<times> element list, globalBG_state) started"
  variantB :: "(chapters_el option, chaptersBG_state) started"

definition scrollDrivenBackground :: "cssom \<Rightarrow> bool \<Rightarrow> page \<Rightarrow> engine" where
  "scrollDrivenBackground css prefersReduced d =
     (if prefersReduced
      then \<lparr>variantA = NotStarted (global_bg d, bg_chapter d), variantB = NotStarted (chapters d)\<rparr>
      else \<lparr>variantA = globalBG css (global_bg d) (bg_chapter d),
            variantB = chaptersBG (chapters d)\<rparr>)"

text \<open>
  The markers an observer watches, and the delivery of one batch of entries by the
  observer \<open>io\<close> of variant A or \<open>io2\<close> of variant B. A variant that did not start has
  no observer: nothing is watched and no callback can run.
\<close>

definition observed :: "('d, 's) started \<Rightarrow> element list" where
  "observed v = (case v of NotStarted _ \<Rightarrow> [] | Running _ ms \<Rightarrow> ms)"

datatype batch = Io "entry list" | Io2 "entry list"

definition deliver :: "cssom \<Rightarrow> engine \<Rightarrow> batch \<Rightarrow> engine" where
  "deliver css g b =
     (case b of
        Io entries \<Rightarrow>
          (case variantA g of
             NotStarted _ \<Rightarrow> g
           | Running s ms \<Rightarrow> g\<lparr>variantA := Running (globalBG_callback css s entries) ms\<rparr>)
      | Io2 entries \<Rightarrow>
          (case variantB g of
             NotStarted _ \<Rightarrow> g
           | Running s ms \<Rightarrow> g\<lparr>variantB := Running (chaptersBG_callback css s entries) ms\<rparr>))"


subsection \<open>State predicates\<close>

text \<open>
  The predicates of the properties below. Exactly one of two layers is marked active.
  For a started engine, each variant that runs has exactly one layer marked active.
\<close>

definition one_layer_active :: "element \<Rightarrow> element \<Rightarrow> bool" where
  "one_layer_active a b = (is_active a \<noteq> is_active b)"

definition one_active_A :: "engine \<Rightarrow> bool" where
  "one_active_A g = (case variantA g of NotStarted _ \<Rightarrow> True
     | Running s _ \<Rightarrow> one_layer_active (layerA s) (layerB s))"

definition one_active_B :: "engine \<Rightarrow> bool" where
  "one_active_B g = (case variantB g of NotStarted _ \<Rightarrow> True
     | Running s _ \<Rightarrow> one_layer_active (bgA s) (bgB s))"

text \<open>
  The check of the callbacks for "already showing": the address is truthy and occurs in
  the style string of the layer.
\<close>

definition showing :: "string option \<Rightarrow> element \<Rightarrow> bool" where
  "showing url n = (truthy url \<and> str_includes (style_backgroundImage n) (or_else url []))"

text \<open>
  The panels marked current are those whose \<^verbatim>\<open>data-idx\<close> is
  \<^verbatim>\<open>chapters.dataset.active\<close>.
\<close>

definition panels_track :: "chaptersBG_state \<Rightarrow> bool" where
  "panels_track c =
     (map is_active (panels c) = map (\<lambda>p. data_idx p = Some (dataset_active c)) (panels c))"

text \<open>
  The test for an image already showing as the specification words it: the address of
  the entry is exactly the address last shown.
\<close>

definition spec_already_showing :: "string \<Rightarrow> string \<Rightarrow> bool" where
  "spec_already_showing lastShownURL imageURL = (imageURL = lastShownURL)"

subsection \<open>Scenario data\<close>

text \<open>
  A \<^verbatim>\<open>.bg-chapter\<close> marker with the given \<^verbatim>\<open>data-idx\<close>, \<^verbatim>\<open>data-bg\<close> and \<^verbatim>\<open>data-tint\<close>,
  a \<^verbatim>\<open>.chap-content\<close> panel and a \<^verbatim>\<open>.chapter\<close> marker with the given \<^verbatim>\<open>data-idx\<close> and
  \<^verbatim>\<open>data-bg\<close>, and the entry an observer reports when a marker enters the trigger band.
\<close>

definition marker :: "string option \<Rightarrow> string option \<Rightarrow> string option \<Rightarrow> element" where
  "marker idx bg tint = (el [''bg-chapter''])\<lparr>data_idx := idx, data_bg := bg, data_tint := tint\<rparr>"

definition panel :: "string option \<Rightarrow> string option \<Rightarrow> element" where
  "panel idx bg = (el [''chap-content''])\<lparr>data_idx := idx, data_bg := bg\<rparr>"

definition chapter_marker :: "string option \<Rightarrow> string option \<Rightarrow> element" where
  "chapter_marker idx bg = (el [''chapter''])\<lparr>data_idx := idx, data_bg := bg\<rparr>"

definition entered :: "element \<Rightarrow> entry" where
  "entered m = \<lparr>isIntersecting = True, target = m\<rparr>"

text \<open>
  A browser that drops every assignment whose outcome the model does not compute. The
  addresses of the scenarios are all computed, so the choice does not matter there.
\<close>

definition css_none :: cssom where
  "css_none text = None"

text \<open>
  The cross-fade scenario: layer A active with \<^verbatim>\<open>black.jpeg\<close>, layer B inactive and
  empty; the marker that enters has the image \<^verbatim>\<open>white.jpeg\<close> and a tint.
\<close>

definition crossfade_start :: globalBG_state where
  "crossfade_start =
     \<lparr>layerA = (el [''g-bg'', ''g-bgA'', ''is-active''])
         \<lparr>style_backgroundImage := url_text ''black.jpeg''\<rparr>,
      layerB = el [''g-bg'', ''g-bgB''],
      overlay = Some (el [''g-overlay'']),
      useA = True,
      requested = [''black.jpeg'']\<rparr>"

definition crossfade_event :: entry where
  "crossfade_event = entered (marker None (Some ''white.jpeg'') (Some ''rgba(1,2,3,.1)''))"

text \<open>
  Layer A shows the default image of the first section,
  \<^verbatim>\<open>background-photos/black.jpeg\<close>. One marker has the image \<^verbatim>\<open>black.jpeg\<close>, another
  \<^verbatim>\<open>photos/black.jpeg\<close> and a tint: other addresses, whose text is a part of the one
  shown. The same in the pinned variant, with \<^verbatim>\<open>background-photos/white.jpeg\<close> on the
  active layer B.
\<close>

definition partial_start :: globalBG_state where
  "partial_start =
     \<lparr>layerA = (el [''g-bg'', ''g-bgA'', ''is-active''])
         \<lparr>style_backgroundImage := url_text ''background-photos/black.jpeg''\<rparr>,
      layerB = el [''g-bg'', ''g-bgB''],
      overlay = Some (el [''g-overlay'']),
      useA = True,
      requested = [''background-photos/black.jpeg'']\<rparr>"

definition partial_event :: entry where
  "partial_event = entered (marker None (Some ''black.jpeg'') None)"

definition inside_event :: entry where
  "inside_event = entered (marker (Some ''2'') (Some ''photos/black.jpeg'') (Some ''rgba(1,2,3,.1)''))"

definition partial_pinned :: chaptersBG_state where
  "partial_pinned =
     \<lparr>bgA = el [''chapters-bg'', ''chapters-bgA''],
      bgB = (el [''chapters-bg'', ''chapters-bgB'', ''is-active''])
         \<lparr>style_backgroundImage := url_text ''background-photos/white.jpeg''\<rparr>,
      panels = [(el [''chap-content'', ''is-active''])\<lparr>data_idx := Some ''1''\<rparr>,
                (el [''chap-content''])\<lparr>data_idx := Some ''2''\<rparr>],
      dataset_active = ''1'', c_useA = False, c_requested = [''background-photos/white.jpeg'']\<rparr>"

definition partial_pinned_event :: entry where
  "partial_pinned_event = entered (chapter_marker (Some ''2'') (Some ''white.jpeg''))"

text \<open>
  An address with a double quote, \<^verbatim>\<open>a"b.jpg\<close>, and what the browser reads back once it
  is assigned, \<^verbatim>\<open>url("a\"b.jpg")\<close>. Two \<^verbatim>\<open>.chapter\<close> markers with this image and the
  indices 1 and 2.
\<close>

definition quoted_jpg :: string where
  "quoted_jpg = ''a'' @ [CHR 0x22] @ ''b.jpg''"

definition quoted_text :: string where
  "quoted_text = ''url('' @ [CHR 0x22] @ ''a'' @ [CHR 0x5C, CHR 0x22] @ ''b.jpg'' @ [CHR 0x22] @ '')''"

definition quoted_event :: entry where
  "quoted_event = entered (marker (Some ''2'') (Some quoted_jpg) None)"

definition quoted_S1 :: entry where
  "quoted_S1 = entered (chapter_marker (Some ''1'') (Some quoted_jpg))"

definition quoted_S2 :: entry where
  "quoted_S2 = entered (chapter_marker (Some ''2'') (Some quoted_jpg))"

text \<open>
  A \<^verbatim>\<open>.chapters\<close> block with two panels that both name the image \<^verbatim>\<open>a.jpg\<close> and with
  no marker of its own; the state and the two markers that \<^verbatim>\<open>chaptersBG\<close> makes of it.
\<close>

definition pinned_chapters :: chapters_el where
  "pinned_chapters =
     \<lparr>chapters_bgA = None, chapters_bgB = None,
      chap_content = [panel None (Some ''a.jpg''), panel None (Some ''a.jpg'')],
      chapter_markers = [], data_active = None\<rparr>"

definition pinned_start :: chaptersBG_state where
  "pinned_start =
     \<lparr>bgA = el [''chapters-bg'', ''chapters-bgA'', ''is-active''],
      bgB = el [''chapters-bg'', ''chapters-bgB''],
      panels = [(el [''chap-content'', ''is-active''])\<lparr>data_idx := Some ''1'', data_bg := Some ''a.jpg''\<rparr>,
                (el [''chap-content''])\<lparr>data_idx := Some ''2'', data_bg := Some ''a.jpg''\<rparr>],
      dataset_active = ''1'', c_useA = True, c_requested = []\<rparr>"

definition pinned_S1 :: element where
  "pinned_S1 = (el [''chapter''])\<lparr>data_idx := Some ''1'', data_bg := Some ''a.jpg'', style_height := ''140vh''\<rparr>"

definition pinned_S2 :: element where
  "pinned_S2 = (el [''chapter''])\<lparr>data_idx := Some ''2'', data_bg := Some ''a.jpg'', style_height := ''140vh''\<rparr>"

text \<open>
  A \<^verbatim>\<open>.chapters\<close> block whose author wrote the markers: the first has no \<^verbatim>\<open>data-idx\<close>,
  and neither has an inline height. The state \<^verbatim>\<open>chaptersBG\<close> starts from.
\<close>

definition authored_chapters :: chapters_el where
  "authored_chapters =
     \<lparr>chapters_bgA = None, chapters_bgB = None,
      chap_content = [panel (Some ''1'') None, panel (Some ''2'') None],
      chapter_markers = [chapter_marker None (Some ''a.jpg''), chapter_marker (Some ''2'') (Some ''b.jpg'')],
      data_active = None\<rparr>"

definition authored_start :: chaptersBG_state where
  "authored_start =
     \<lparr>bgA = el [''chapters-bg'', ''chapters-bgA'', ''is-active''],
      bgB = el [''chapters-bg'', ''chapters-bgB''],
      panels = [(el [''chap-content'', ''is-active''])\<lparr>data_idx := Some ''1''\<rparr>,
                (el [''chap-content''])\<lparr>data_idx := Some ''2''\<rparr>],
      dataset_active = ''1'', c_useA = True, c_requested = []\<rparr>"

text \<open>
  Two more blocks. In the first the author wrote one marker, and the two panels have
  no \<^verbatim>\<open>data-idx\<close>. The second is \<open>pinned_chapters\<close> with the attribute
  \<^verbatim>\<open>data-active="2"\<close>.
\<close>

definition unindexed_chapters :: chapters_el where
  "unindexed_chapters =
     \<lparr>chapters_bgA = None, chapters_bgB = None,
      chap_content = [panel None None, panel None None],
      chapter_markers = [chapter_marker (Some ''1'') (Some ''a.jpg'')],
      data_active = None\<rparr>"

definition preset_chapters :: chapters_el where
  "preset_chapters = pinned_chapters\<lparr>data_active := Some ''2''\<rparr>"

text \<open>
  A page without \<^verbatim>\<open>.global-bg\<close>, with two section markers and the pinned block above.
\<close>

definition demo_page :: page where
  "demo_page =
     \<lparr>global_bg = None,
      bg_chapter = [marker (Some ''1'') (Some ''black.jpeg'') None,
                    marker (Some ''2'') (Some ''white.jpeg'') (Some ''rgba(1,2,3,.1)'')],
      chapters = Some pinned_chapters\<rparr>"

text \<open>
  A page whose author wrote the layers: a \<^verbatim>\<open>.global-bg\<close> with both layers and neither
  marked \<^verbatim>\<open>is-active\<close>, one section marker, and a \<^verbatim>\<open>.chapters\<close> block that has
  \<^verbatim>\<open>.chapters-bgB.is-active\<close> and no \<^verbatim>\<open>.chapters-bgA\<close>.
\<close>

definition authored_page :: page where
  "authored_page =
     \<lparr>global_bg = Some \<lparr>g_bgA = Some (el [''g-bg'', ''g-bgA'']),
                         g_bgB = Some (el [''g-bg'', ''g-bgB'']),
                         g_overlay = Some (el [''g-overlay''])\<rparr>,
      bg_chapter = [marker (Some ''1'') (Some ''black.jpeg'') None],
      chapters = Some (pinned_chapters
         \<lparr>chapters_bgB := Some (el [''chapters-bg'', ''chapters-bgB'', ''is-active''])\<rparr>)\<rparr>"

section \<open>Properties\<close>

subsection \<open>Strings, class lists and truthiness\<close>

text \<open>\<open>str_includes\<close> is the substring relation.\<close>

lemma str_includes_sublist: "str_includes s t \<longleftrightarrow> sublist t s"
  by (induction s) (auto simp: sublist_Cons_right)

lemma str_includes_iff: "str_includes s t \<longleftrightarrow> (\<exists>ps ss. s = ps @ t @ ss)"
  by (simp add: str_includes_sublist sublist_def)

text \<open>
  An address of the characters of \<open>url_chars\<close> is read back as it is between double
  quotes, and so occurs in the text read back.
\<close>

lemma css_plain_kept: "css_plain url \<Longrightarrow> css_kept url"
  by (induction url) (simp_all add: css_plain_def css_kept_def)

lemma css_escape_plain: "css_plain url \<Longrightarrow> css_escape url = url"
proof (induction url)
  case Nil
  then show ?case by simp
next
  case (Cons c cs)
  have "CHR 0x22 \<notin> set url_chars"
    by (simp add: url_chars_def)
  with Cons.prems have "c \<noteq> CHR 0x22"
    by (auto simp add: css_plain_def)
  with Cons show ?case
    by (simp add: css_plain_def)
qed

lemma str_includes_url_text:
  assumes "css_plain url"
  shows "str_includes (url_text url) url"
proof -
  have "url_text url = (''url('' @ [CHR 0x22]) @ url @ ([CHR 0x22] @ '')'')"
    by (simp add: url_text_def css_escape_plain [OF assms])
  then show ?thesis
    unfolding str_includes_iff by blast
qed

lemma read_back_kept: "css_kept url \<Longrightarrow> read_back css url = Some (url_text url)"
  by (simp add: read_back_def)

lemma read_back_plain: "css_plain url \<Longrightarrow> read_back css url = Some (url_text url)"
  by (simp add: read_back_kept css_plain_kept)

lemma or_else_Some_self [simp]: "or_else (Some v) [] = v"
  by (simp add: or_else_def)

lemma truthy_Some [simp]: "truthy (Some v) = (v \<noteq> [])"
  by (simp add: truthy_def)

lemma truthy_None [simp]: "\<not> truthy None"
  by (simp add: truthy_def)

lemma truthy_or_null [simp]: "truthy (or_null a) = truthy a"
  by (simp add: or_null_def)

lemma truthy_cases: "truthy a \<Longrightarrow> \<exists>v. a = Some v \<and> v \<noteq> []"
  by (cases a) simp_all

lemma is_active_add [simp]: "is_active (classList_add ''is-active'' n)"
  by (simp add: is_active_def classList_contains_def classList_add_def)

lemma is_active_remove [simp]: "\<not> is_active (classList_remove ''is-active'' n)"
  by (simp add: is_active_def classList_contains_def classList_remove_def)

lemma is_active_toggle [simp]: "is_active (classList_toggle ''is-active'' b n) = b"
  by (simp add: classList_toggle_def)

lemma is_active_style [simp]: "is_active (n\<lparr>style_backgroundImage := v\<rparr>) = is_active n"
  by (simp add: is_active_def classList_contains_def)

lemma is_active_set_backgroundImage [simp]:
  "is_active (set_backgroundImage css url n) = is_active n"
  by (simp add: set_backgroundImage_def split: option.splits)

lemma style_set_backgroundImage:
  "style_backgroundImage (set_backgroundImage css url n) =
     (case read_back css url of None \<Rightarrow> style_backgroundImage n | Some v \<Rightarrow> v)"
  by (simp add: set_backgroundImage_def split: option.splits)

lemma set_backgroundImage_kept:
  "css_kept url \<Longrightarrow> set_backgroundImage css url n = n\<lparr>style_backgroundImage := url_text url\<rparr>"
  by (simp add: set_backgroundImage_def read_back_kept)

lemma is_active_el: "is_active (el cls) = (''is-active'' \<in> set cls)"
  by (simp add: is_active_def classList_contains_def el_def)

lemma style_add [simp]: "style_backgroundImage (classList_add c n) = style_backgroundImage n"
  by (simp add: classList_add_def)

lemma style_remove [simp]: "style_backgroundImage (classList_remove c n) = style_backgroundImage n"
  by (simp add: classList_remove_def)

lemma data_idx_toggle [simp]: "data_idx (classList_toggle c b p) = data_idx p"
  by (simp add: classList_toggle_def classList_add_def classList_remove_def)

lemma classList_toggle_idem:
  "classList_toggle c b (classList_toggle c b n) = classList_toggle c b n"
  by (simp add: classList_toggle_def classList_add_def classList_remove_def)

lemma String_of_nat_digit: "n < 10 \<Longrightarrow> String_of_nat n = [digit n]"
  by (simp add: String_of_nat.simps)

lemma String_of_nat_1: "String_of_nat (Suc 0) = ''1''" "String_of_nat (Suc (Suc 0)) = ''2''"
  by (simp_all add: String_of_nat_digit digit_def)

lemma String_of_nat_length: "length (String_of_nat n) \<ge> 1"
  by (induction n rule: String_of_nat.induct) (subst String_of_nat.simps, simp)

lemma digit_1:
  assumes "n < 10"
  shows "digit n = CHR ''1'' \<longleftrightarrow> n = 1"
proof -
  have "list_all (\<lambda>k. (digit k = CHR ''1'') = (k = 1)) [0..<10]"
    by (simp add: upt_rec digit_def)
  with assms show ?thesis
    by (simp add: list_all_iff)
qed

lemma String_of_nat_eq_1: "String_of_nat n = ''1'' \<longleftrightarrow> n = 1"
proof (cases "n < 10")
  case True
  then show ?thesis
    by (simp add: String_of_nat_digit digit_1)
next
  case False
  then have "String_of_nat n = String_of_nat (n div 10) @ [digit (n mod 10)]"
    by (subst String_of_nat.simps) simp
  then have "length (String_of_nat n) \<ge> 2"
    using String_of_nat_length [of "n div 10"] by simp
  with False show ?thesis
    by auto
qed

lemma filter_cong_map: "map P xs = map Q xs \<Longrightarrow> filter P xs = filter Q xs"
  by (induction xs) simp_all

lemma one_match:
  assumes "distinct (map f xs)" and "y \<in> set (map f xs)"
  shows "length (filter (\<lambda>x. f x = y) xs) = 1"
  using assms
proof (induction xs)
  case Nil
  then show ?case by simp
next
  case (Cons x xs)
  show ?case
  proof (cases "f x = y")
    case True
    with Cons.prems(1) have "filter (\<lambda>x. f x = y) xs = []"
      by (fastforce simp add: filter_empty_conv image_iff)
    with True show ?thesis by simp
  next
    case False
    with Cons show ?thesis by simp
  qed
qed


subsection \<open>Variant A: fields after one entry\<close>

lemma swap_layers_fields:
  "layerA (swap_layers css url s) =
     (if useA s then classList_remove ''is-active'' (layerA s)
      else classList_add ''is-active'' (set_backgroundImage css url (layerA s)))"
  "layerB (swap_layers css url s) =
     (if useA s then classList_add ''is-active'' (set_backgroundImage css url (layerB s))
      else classList_remove ''is-active'' (layerB s))"
  "useA (swap_layers css url s) = (\<not> useA s)"
  "overlay (swap_layers css url s) = overlay s"
  "requested (swap_layers css url s) = (if url = [] then requested s else requested s @ [url])"
  by (simp_all add: swap_layers_def Let_def upd_active_def upd_inactive_def preload_def truthy_def)

lemma set_tint_fields:
  "layerA (set_tint t s) = layerA s"
  "layerB (set_tint t s) = layerB s"
  "useA (set_tint t s) = useA s"
  "requested (set_tint t s) = requested s"
  "overlay (set_tint t s) =
     (case overlay s of None \<Rightarrow> None
      | Some ov \<Rightarrow> if truthy t then Some (ov\<lparr>style_bg_tint := t\<rparr>) else Some ov)"
  by (simp_all add: set_tint_def split: option.splits)

lemma active_layer_simps:
  "active_layer (set_tint t s) = active_layer s"
  "active_layer (s\<lparr>overlay := ov\<rparr>) = active_layer s"
  "active_layer (swap_layers css url s) =
     classList_add ''is-active'' (set_backgroundImage css url (inactive_layer s))"
  "inactive_layer (swap_layers css url s) = classList_remove ''is-active'' (active_layer s)"
  by (simp_all add: active_layer_def inactive_layer_def set_tint_fields swap_layers_fields)

lemma globalBG_entry_swap:
  assumes "isIntersecting e" and "data_bg (target e) = Some url" and "url \<noteq> []"
    and "\<not> str_includes (style_backgroundImage (active_layer s)) url"
  shows "globalBG_entry css s e = set_tint (or_null (data_tint (target e))) (swap_layers css url s)"
  using assms by (simp add: globalBG_entry_def Let_def)

lemma globalBG_entry_same:
  assumes "isIntersecting e" and "data_bg (target e) = Some url" and "url \<noteq> []"
    and "str_includes (style_backgroundImage (active_layer s)) url"
  shows "globalBG_entry css s e = set_tint (or_null (data_tint (target e))) s"
  using assms by (simp add: globalBG_entry_def Let_def)

lemma globalBG_entry_falsy:
  assumes "\<not> truthy (data_bg (target e))"
  shows "globalBG_entry css s e = s"
  using assms by (simp add: globalBG_entry_def Let_def)

subsection \<open>Variant B: fields after one entry\<close>

lemma c_swap_layers_fields:
  "bgA (c_swap_layers css url s) =
     (if c_useA s then classList_remove ''is-active'' (bgA s)
      else classList_add ''is-active'' (set_backgroundImage css url (bgA s)))"
  "bgB (c_swap_layers css url s) =
     (if c_useA s then classList_add ''is-active'' (set_backgroundImage css url (bgB s))
      else classList_remove ''is-active'' (bgB s))"
  "c_useA (c_swap_layers css url s) = (\<not> c_useA s)"
  "panels (c_swap_layers css url s) = panels s"
  "dataset_active (c_swap_layers css url s) = dataset_active s"
  "c_requested (c_swap_layers css url s) = (if url = [] then c_requested s else c_requested s @ [url])"
  by (simp_all add: c_swap_layers_def Let_def c_upd_active_def c_upd_inactive_def preload_def
      truthy_def)

lemma setActivePanel_fields:
  "bgA (setActivePanel idx s) = bgA s"
  "bgB (setActivePanel idx s) = bgB s"
  "c_useA (setActivePanel idx s) = c_useA s"
  "c_requested (setActivePanel idx s) = c_requested s"
  "dataset_active (setActivePanel idx s) = idx"
  "panels (setActivePanel idx s) =
     map (\<lambda>p. classList_toggle ''is-active'' (data_idx p = Some idx) p) (panels s)"
  by (simp_all add: setActivePanel_def)

lemma c_active_layer_simps:
  "c_active_layer (setActivePanel i c) = c_active_layer c"
  "c_inactive_layer (setActivePanel i c) = c_inactive_layer c"
  "c_active_layer (c\<lparr>panels := ps, dataset_active := i\<rparr>) = c_active_layer c"
  "c_active_layer (c_swap_layers css url c) =
     classList_add ''is-active'' (set_backgroundImage css url (c_inactive_layer c))"
  "c_inactive_layer (c_swap_layers css url c) = classList_remove ''is-active'' (c_active_layer c)"
  by (simp_all add: c_active_layer_def c_inactive_layer_def setActivePanel_fields
      c_swap_layers_fields)

lemma chaptersBG_entry_swap:
  assumes "isIntersecting e" and "data_bg (target e) = Some url" and "url \<noteq> []"
    and "\<not> str_includes (style_backgroundImage (c_active_layer s)) url"
  shows "chaptersBG_entry css s e =
    setActivePanel (or_else (data_idx (target e)) []) (c_swap_layers css url s)"
  using assms by (simp add: chaptersBG_entry_def Let_def)

lemma chaptersBG_entry_same:
  assumes "isIntersecting e" and "data_bg (target e) = Some url" and "url \<noteq> []"
    and "str_includes (style_backgroundImage (c_active_layer s)) url"
  shows "chaptersBG_entry css s e = setActivePanel (or_else (data_idx (target e)) []) s"
  using assms by (simp add: chaptersBG_entry_def Let_def)

lemma chaptersBG_entry_falsy:
  assumes "\<not> truthy (data_bg (target e))"
  shows "chaptersBG_entry css s e = s"
  using assms by (simp add: chaptersBG_entry_def Let_def)

lemma setActivePanel_current:
  "map is_active (panels (setActivePanel idx c)) = map (\<lambda>p. data_idx p = Some idx) (panels c)"
  "map data_idx (panels (setActivePanel idx c)) = map data_idx (panels c)"
  by (simp_all add: setActivePanel_fields comp_def)

lemma setActivePanel_idem: "setActivePanel idx (setActivePanel idx c) = setActivePanel idx c"
  by (simp add: setActivePanel_def comp_def classList_toggle_idem)

subsection \<open>The scenario data\<close>

text \<open>The addresses of the scenarios and what is read back for them.\<close>

lemma scenario_plain:
  "css_plain ''black.jpeg''" "css_plain ''white.jpeg''" "css_plain ''a.jpg''"
  "css_plain ''background-photos/black.jpeg''" "css_plain ''background-photos/white.jpeg''"
  "css_plain ''photos/black.jpeg''"
  by (simp_all add: css_plain_def url_chars_def)

lemma scenario_url_text:
  "url_text ''black.jpeg'' = ''url('' @ [CHR 0x22] @ ''black.jpeg'' @ [CHR 0x22] @ '')''"
  "url_text ''white.jpeg'' = ''url('' @ [CHR 0x22] @ ''white.jpeg'' @ [CHR 0x22] @ '')''"
  "url_text ''a.jpg'' = ''url('' @ [CHR 0x22] @ ''a.jpg'' @ [CHR 0x22] @ '')''"
  "url_text ''background-photos/black.jpeg'' =
     ''url('' @ [CHR 0x22] @ ''background-photos/black.jpeg'' @ [CHR 0x22] @ '')''"
  "url_text ''background-photos/white.jpeg'' =
     ''url('' @ [CHR 0x22] @ ''background-photos/white.jpeg'' @ [CHR 0x22] @ '')''"
  by (simp_all add: url_text_def)

lemma quoted_kept: "css_kept quoted_jpg" "quoted_jpg \<noteq> []"
  by (simp_all add: css_kept_def quoted_jpg_def url_chars_def)

lemma quoted_url_text: "url_text quoted_jpg = quoted_text"
  by (simp add: url_text_def quoted_jpg_def quoted_text_def)

lemma quoted_not_included:
  "\<not> str_includes quoted_text quoted_jpg"
  "\<not> str_includes (url_text ''black.jpeg'') quoted_jpg"
  by (simp_all add: quoted_text_def quoted_jpg_def url_text_def)

subsection \<open>The start of the variants on the scenario pages\<close>

lemma pinned_setup:
  "chaptersBG (Some pinned_chapters) = Running pinned_start [pinned_S1, pinned_S2]"
  by (simp add: chaptersBG_def pinned_chapters_def pinned_start_def pinned_S1_def pinned_S2_def
      Let_def panel_def el_def synth_marker_def index_panel_def setActivePanel_def
      classList_toggle_def classList_add_def classList_remove_def enumerate_eq_zip
      or_else_def String_of_nat_1)

lemma authored_setup:
  "chaptersBG (Some authored_chapters) = Running authored_start (chapter_markers authored_chapters)"
  by (simp add: chaptersBG_def authored_chapters_def authored_start_def
      Let_def panel_def chapter_marker_def el_def setActivePanel_def
      classList_toggle_def classList_add_def classList_remove_def or_else_def)

lemma crossfade_setup:
  "variantA (scrollDrivenBackground css False (bootstrap_layers demo_page)) =
     Running crossfade_start
       [(marker (Some ''1'') (Some ''black.jpeg'') None)\<lparr>style_height := ''120px''\<rparr>,
        (marker (Some ''2'') (Some ''white.jpeg'') (Some ''rgba(1,2,3,.1)''))\<lparr>style_height := ''120px''\<rparr>]"
  by (simp add: scrollDrivenBackground_def bootstrap_layers_def demo_page_def globalBG_def
      initFirstBG_def Let_def marker_def crossfade_start_def preload_def or_else_def
      set_backgroundImage_kept css_plain_kept scenario_plain)
    (simp add: el_def)

lemma demo_pinned_setup:
  "variantB (scrollDrivenBackground css False (bootstrap_layers demo_page)) =
     Running pinned_start [pinned_S1, pinned_S2]"
proof -
  have "chapters (bootstrap_layers demo_page) =
      Some (pinned_chapters\<lparr>chapters_bgA := Some (el [''chapters-bg'', ''chapters-bgA'', ''is-active'']),
                            chapters_bgB := Some (el [''chapters-bg'', ''chapters-bgB''])\<rparr>)"
    by (simp add: bootstrap_layers_def demo_page_def pinned_chapters_def)
  then show ?thesis
    by (simp add: scrollDrivenBackground_def)
      (simp add: chaptersBG_def pinned_chapters_def pinned_start_def pinned_S1_def pinned_S2_def
        Let_def panel_def el_def synth_marker_def index_panel_def setActivePanel_def
        classList_toggle_def classList_add_def classList_remove_def enumerate_eq_zip
        or_else_def String_of_nat_1)
qed

subsection \<open>The swap on a new image\<close>

text \<open>
  The cross-fade scenario: from layer A active with \<^verbatim>\<open>black.jpeg\<close> and layer B
  inactive and empty, the entry with \<^verbatim>\<open>white.jpeg\<close> and the tint \<^verbatim>\<open>rgba(1,2,3,.1)\<close>
  ends with layer B active and reading \<^verbatim>\<open>url("white.jpeg")\<close>, layer A inactive, and the
  tint on the overlay.
\<close>

lemma crossfade_event_swaps:
  "globalBG_entry css crossfade_start crossfade_event =
     set_tint (Some ''rgba(1,2,3,.1)'') (swap_layers css ''white.jpeg'' crossfade_start)"
proof -
  have "isIntersecting crossfade_event"
    and "data_bg (target crossfade_event) = Some ''white.jpeg''"
    and "data_tint (target crossfade_event) = Some ''rgba(1,2,3,.1)''"
    by (simp_all add: crossfade_event_def entered_def marker_def)
  moreover have "\<not> str_includes (style_backgroundImage (active_layer crossfade_start)) ''white.jpeg''"
    by (simp add: active_layer_def crossfade_start_def scenario_url_text)
  ultimately show ?thesis
    by (simp add: globalBG_entry_swap or_null_def)
qed

lemma crossfade_scenario:
  "\<not> useA (globalBG_entry css crossfade_start crossfade_event)
   \<and> is_active (layerB (globalBG_entry css crossfade_start crossfade_event))
   \<and> style_backgroundImage (layerB (globalBG_entry css crossfade_start crossfade_event)) =
       url_text ''white.jpeg''
   \<and> \<not> is_active (layerA (globalBG_entry css crossfade_start crossfade_event))
   \<and> map_option style_bg_tint (overlay (globalBG_entry css crossfade_start crossfade_event)) =
       Some (Some ''rgba(1,2,3,.1)'')
   \<and> requested (globalBG_entry css crossfade_start crossfade_event) =
       [''black.jpeg'', ''white.jpeg'']"
proof -
  have "useA crossfade_start" and "overlay crossfade_start = Some (el [''g-overlay''])"
    and "requested crossfade_start = [''black.jpeg'']"
    by (simp_all add: crossfade_start_def)
  then show ?thesis
    by (simp add: crossfade_event_swaps set_tint_fields swap_layers_fields
        style_set_backgroundImage read_back_plain scenario_plain)
qed

text \<open>
  Claim C1 asks for the swap whenever the address of the entry differs from the one
  shown. With \<^verbatim>\<open>background-photos/black.jpeg\<close> on the active layer A, an entry with the
  different address \<^verbatim>\<open>photos/black.jpeg\<close> and a tint is taken as already showing: both
  layers, \<^verbatim>\<open>useA\<close> and the preloads stay as they are, the inactive layer B stays empty
  and inactive, and only the tint is set.
\<close>

theorem different_image_not_swapped:
  "\<not> spec_already_showing ''background-photos/black.jpeg'' ''photos/black.jpeg''
   \<and> style_backgroundImage (active_layer partial_start) = url_text ''background-photos/black.jpeg''
   \<and> isIntersecting inside_event
   \<and> data_bg (target inside_event) = Some ''photos/black.jpeg''
   \<and> layerA (globalBG_entry css partial_start inside_event) = layerA partial_start
   \<and> layerB (globalBG_entry css partial_start inside_event) = layerB partial_start
   \<and> useA (globalBG_entry css partial_start inside_event) = useA partial_start
   \<and> requested (globalBG_entry css partial_start inside_event) = requested partial_start
   \<and> style_backgroundImage (inactive_layer (globalBG_entry css partial_start inside_event)) = []
   \<and> \<not> is_active (inactive_layer (globalBG_entry css partial_start inside_event))
   \<and> map_option style_bg_tint (overlay (globalBG_entry css partial_start inside_event)) =
       Some (Some ''rgba(1,2,3,.1)'')"
proof -
  have e: "isIntersecting inside_event" "data_bg (target inside_event) = Some ''photos/black.jpeg''"
    "data_tint (target inside_event) = Some ''rgba(1,2,3,.1)''"
    by (simp_all add: inside_event_def entered_def marker_def)
  have a: "style_backgroundImage (active_layer partial_start) =
      url_text ''background-photos/black.jpeg''"
    by (simp add: partial_start_def active_layer_def)
  have inc: "str_includes (url_text ''background-photos/black.jpeg'') ''photos/black.jpeg''"
    by (simp add: scenario_url_text)
  have g: "globalBG_entry css partial_start inside_event =
      set_tint (Some ''rgba(1,2,3,.1)'') partial_start"
    using globalBG_entry_same [of inside_event "''photos/black.jpeg''" partial_start css] e a inc
    by (simp add: or_null_def)
  have i: "inactive_layer (set_tint (Some ''rgba(1,2,3,.1)'') partial_start) = el [''g-bg'', ''g-bgB'']"
    "overlay partial_start = Some (el [''g-overlay''])"
    by (simp_all add: inactive_layer_def set_tint_fields partial_start_def)
  show ?thesis
    using e a by (simp add: g set_tint_fields i spec_already_showing_def) (simp add: el_def is_active_def classList_contains_def)
qed

subsection \<open>The test for an image already showing\<close>

text \<open>
  The test of the callbacks holds whenever the address of the entry is the address read
  back on the active layer, for an address of the characters of \<open>url_chars\<close>; it holds for
  other addresses too.
\<close>

lemma spec_already_showing_includes:
  assumes "spec_already_showing lastShownURL imageURL" and "css_plain lastShownURL"
  shows "str_includes (url_text lastShownURL) imageURL"
  using assms by (simp add: spec_already_showing_def str_includes_url_text)

text \<open>
  Claim C2 asks for a swap whenever the address of the entry is not exactly the one
  shown, also when one is a part of the other. The callbacks test
  \<^verbatim>\<open>active.style.backgroundImage.includes(url)\<close>. In both variants an entry whose
  address is a proper part of the one shown (\<^verbatim>\<open>black.jpeg\<close> with
  \<^verbatim>\<open>background-photos/black.jpeg\<close> shown, \<^verbatim>\<open>white.jpeg\<close> with
  \<^verbatim>\<open>background-photos/white.jpeg\<close> shown) leaves both layers, \<^verbatim>\<open>useA\<close> and the preloads
  as they are.
\<close>

theorem substring_address_not_swapped:
  "\<not> spec_already_showing ''background-photos/black.jpeg'' ''black.jpeg''
   \<and> style_backgroundImage (active_layer partial_start) = url_text ''background-photos/black.jpeg''
   \<and> data_bg (target partial_event) = Some ''black.jpeg''
   \<and> globalBG_entry css partial_start partial_event = partial_start
   \<and> \<not> spec_already_showing ''background-photos/white.jpeg'' ''white.jpeg''
   \<and> style_backgroundImage (c_active_layer partial_pinned) = url_text ''background-photos/white.jpeg''
   \<and> data_bg (target partial_pinned_event) = Some ''white.jpeg''
   \<and> bgA (chaptersBG_entry css partial_pinned partial_pinned_event) = bgA partial_pinned
   \<and> bgB (chaptersBG_entry css partial_pinned partial_pinned_event) = bgB partial_pinned
   \<and> c_useA (chaptersBG_entry css partial_pinned partial_pinned_event) = c_useA partial_pinned
   \<and> c_requested (chaptersBG_entry css partial_pinned partial_pinned_event) =
       c_requested partial_pinned"
proof -
  have e: "isIntersecting partial_event" "data_bg (target partial_event) = Some ''black.jpeg''"
    "data_tint (target partial_event) = None"
    by (simp_all add: partial_event_def entered_def marker_def)
  have a: "style_backgroundImage (active_layer partial_start) =
      url_text ''background-photos/black.jpeg''"
    by (simp add: partial_start_def active_layer_def)
  have inc: "str_includes (url_text ''background-photos/black.jpeg'') ''black.jpeg''"
    by (simp add: scenario_url_text)
  have "globalBG_entry css partial_start partial_event = set_tint (or_null None) partial_start"
    using globalBG_entry_same [of partial_event "''black.jpeg''" partial_start css] e a inc by simp
  then have g: "globalBG_entry css partial_start partial_event = partial_start"
    by (simp add: set_tint_def or_null_def split: option.splits)
  have e': "isIntersecting partial_pinned_event"
    "data_bg (target partial_pinned_event) = Some ''white.jpeg''"
    by (simp_all add: partial_pinned_event_def entered_def chapter_marker_def)
  have a': "style_backgroundImage (c_active_layer partial_pinned) =
      url_text ''background-photos/white.jpeg''"
    by (simp add: partial_pinned_def c_active_layer_def)
  have inc': "str_includes (url_text ''background-photos/white.jpeg'') ''white.jpeg''"
    by (simp add: scenario_url_text)
  have c: "chaptersBG_entry css partial_pinned partial_pinned_event =
      setActivePanel (or_else (data_idx (target partial_pinned_event)) []) partial_pinned"
    using chaptersBG_entry_same [of partial_pinned_event "''white.jpeg''" partial_pinned css] e' a' inc'
    by simp
  show ?thesis
    using e a g e' a' by (simp add: c setActivePanel_fields spec_already_showing_def)
qed

subsection \<open>Exactly one layer is active\<close>

lemma globalBG_entry_one_active:
  assumes "one_layer_active (layerA s) (layerB s)"
  shows "one_layer_active (layerA (globalBG_entry css s e)) (layerB (globalBG_entry css s e))"
  using assms
  by (simp add: one_layer_active_def globalBG_entry_def Let_def set_tint_fields swap_layers_fields)

lemma chaptersBG_entry_one_active:
  assumes "one_layer_active (bgA s) (bgB s)"
  shows "one_layer_active (bgA (chaptersBG_entry css s e)) (bgB (chaptersBG_entry css s e))"
  using assms
  by (simp add: one_layer_active_def chaptersBG_entry_def Let_def setActivePanel_fields
      c_swap_layers_fields)

lemma globalBG_callback_one_active:
  assumes "one_layer_active (layerA s) (layerB s)"
  shows "one_layer_active (layerA (globalBG_callback css s es)) (layerB (globalBG_callback css s es))"
  using assms unfolding globalBG_callback_def
  by (induction es arbitrary: s) (simp_all add: globalBG_entry_one_active)

lemma chaptersBG_callback_one_active:
  assumes "one_layer_active (bgA s) (bgB s)"
  shows "one_layer_active (bgA (chaptersBG_callback css s es)) (bgB (chaptersBG_callback css s es))"
  using assms unfolding chaptersBG_callback_def
  by (induction es arbitrary: s) (simp_all add: chaptersBG_entry_one_active)

lemma initFirstBG_active:
  "is_active (layerA (initFirstBG css ms s)) = is_active (layerA s)"
  "layerB (initFirstBG css ms s) = layerB s"
  by (simp_all add: initFirstBG_def Let_def split: list.splits)

lemma globalBG_bootstrap_one_active:
  assumes "global_bg d = None"
    and "globalBG css (global_bg (bootstrap_layers d)) (bg_chapter (bootstrap_layers d)) = Running s ms"
  shows "is_active (layerA s) \<and> \<not> is_active (layerB s)"
  using assms
  by (auto simp add: globalBG_def bootstrap_layers_def initFirstBG_active is_active_el
      split: if_splits)

lemma chaptersBG_bootstrap_one_active:
  assumes "chapters d = Some ch" and "chapters_bgA ch = None" and "chapters_bgB ch = None"
    and "chaptersBG (chapters (bootstrap_layers d)) = Running s ms"
  shows "is_active (bgA s) \<and> \<not> is_active (bgB s)"
  using assms
  by (auto simp add: chaptersBG_def bootstrap_layers_def Let_def setActivePanel_fields is_active_el
      split: if_splits)

lemma chaptersBG_created_one_active:
  assumes "chapters_bgA ch = None" and "chapters_bgB ch = None"
    and "chaptersBG (Some ch) = Running s ms"
  shows "is_active (bgA s) \<and> \<not> is_active (bgB s)"
  using assms
  by (auto simp add: chaptersBG_def Let_def setActivePanel_fields is_active_el
      split: if_splits)

lemma deliver_one_active_A: "one_active_A g \<Longrightarrow> one_active_A (deliver css g b)"
  by (auto simp: one_active_A_def deliver_def globalBG_callback_one_active
      split: batch.splits started.splits)

lemma deliver_one_active_B: "one_active_B g \<Longrightarrow> one_active_B (deliver css g b)"
  by (auto simp: one_active_B_def deliver_def chaptersBG_callback_one_active
      split: batch.splits started.splits)

lemma run_one_active_A: "one_active_A g \<Longrightarrow> one_active_A (foldl (deliver css) g bs)"
  by (induction bs arbitrary: g) (simp_all add: deliver_one_active_A)

lemma run_one_active_B: "one_active_B g \<Longrightarrow> one_active_B (foldl (deliver css) g bs)"
  by (induction bs arbitrary: g) (simp_all add: deliver_one_active_B)

lemma start_one_active_A:
  assumes "global_bg d = None"
  shows "one_active_A (scrollDrivenBackground css False (bootstrap_layers d))"
proof (cases "variantA (scrollDrivenBackground css False (bootstrap_layers d))")
  case (NotStarted x)
  then show ?thesis by (simp add: one_active_A_def)
next
  case (Running s ms)
  then have "globalBG css (global_bg (bootstrap_layers d)) (bg_chapter (bootstrap_layers d)) = Running s ms"
    by (simp add: scrollDrivenBackground_def)
  from globalBG_bootstrap_one_active [OF assms this] Running show ?thesis
    by (simp add: one_active_A_def one_layer_active_def)
qed

lemma start_one_active_B:
  assumes "case chapters d of None \<Rightarrow> True
           | Some ch \<Rightarrow> chapters_bgA ch = None \<and> chapters_bgB ch = None"
  shows "one_active_B (scrollDrivenBackground css False (bootstrap_layers d))"
proof (cases "variantB (scrollDrivenBackground css False (bootstrap_layers d))")
  case (NotStarted x)
  then show ?thesis by (simp add: one_active_B_def)
next
  case (Running s ms)
  then have r: "chaptersBG (chapters (bootstrap_layers d)) = Running s ms"
    by (simp add: scrollDrivenBackground_def)
  show ?thesis
  proof (cases "chapters d")
    case None
    with r show ?thesis
      by (simp add: bootstrap_layers_def chaptersBG_def)
  next
    case (Some ch)
    with assms have "chapters_bgA ch = None" "chapters_bgB ch = None"
      by simp_all
    from chaptersBG_bootstrap_one_active [OF Some this r] Running show ?thesis
      by (simp add: one_active_B_def one_layer_active_def)
  qed
qed

lemma globalBG_entry_swap_one_active:
  assumes "useA (globalBG_entry css s e) \<noteq> useA s"
  shows "one_layer_active (layerA (globalBG_entry css s e)) (layerB (globalBG_entry css s e))"
  using assms
  by (simp add: one_layer_active_def globalBG_entry_def Let_def set_tint_fields swap_layers_fields
      split: if_splits)

lemma chaptersBG_entry_swap_one_active:
  assumes "c_useA (chaptersBG_entry css c e) \<noteq> c_useA c"
  shows "one_layer_active (bgA (chaptersBG_entry css c e)) (bgB (chaptersBG_entry css c e))"
  using assms
  by (simp add: one_layer_active_def chaptersBG_entry_def Let_def setActivePanel_fields
      c_swap_layers_fields split: if_splits)

text \<open>
  Claim C3 asks for exactly one active layer at the start and after any entries. On
  the page \<open>authored_page\<close> both variants run. In the global variant neither layer is
  marked active at the start, and neither is after the section marker has entered,
  whose image layer A shows already. In the pinned variant \<^verbatim>\<open>chaptersBG\<close> creates
  layer A with \<^verbatim>\<open>is-active\<close> beside the author's active layer B: both are marked
  active at the start.
\<close>

theorem exactly_one_layer_active_counterexample:
  "(case variantA (scrollDrivenBackground css_none False (bootstrap_layers authored_page)) of
      NotStarted x \<Rightarrow> False
    | Running s ms \<Rightarrow> \<not> is_active (layerA s) \<and> \<not> is_active (layerB s))
   \<and> (case variantA (foldl (deliver css_none)
          (scrollDrivenBackground css_none False (bootstrap_layers authored_page))
          [Io [entered (marker (Some ''1'') (Some ''black.jpeg'') None)]]) of
      NotStarted x \<Rightarrow> False
    | Running s ms \<Rightarrow> \<not> is_active (layerA s) \<and> \<not> is_active (layerB s))
   \<and> (case variantB (scrollDrivenBackground css_none False (bootstrap_layers authored_page)) of
      NotStarted x \<Rightarrow> False
    | Running c ms \<Rightarrow> is_active (bgA c) \<and> is_active (bgB c))"
proof -
  let ?g = "scrollDrivenBackground css_none False (bootstrap_layers authored_page)"
  let ?s = "\<lparr>layerA = (el [''g-bg'', ''g-bgA''])\<lparr>style_backgroundImage := url_text ''black.jpeg''\<rparr>,
      layerB = el [''g-bg'', ''g-bgB''], overlay = Some (el [''g-overlay'']), useA = True,
      requested = [''black.jpeg'']\<rparr>"
  let ?e = "entered (marker (Some ''1'') (Some ''black.jpeg'') None)"
  have b: "bootstrap_layers authored_page = authored_page"
    by (simp add: bootstrap_layers_def authored_page_def pinned_chapters_def)
  have a: "variantA ?g = Running ?s [(marker (Some ''1'') (Some ''black.jpeg'') None)\<lparr>style_height := ''120px''\<rparr>]"
    by (simp add: b scrollDrivenBackground_def)
      (simp add: authored_page_def globalBG_def initFirstBG_def Let_def marker_def preload_def
        or_else_def set_backgroundImage_kept css_plain_kept scenario_plain, simp add: el_def)
  have n: "\<not> is_active (layerA ?s)" "\<not> is_active (layerB ?s)"
    by (simp_all add: is_active_el)
  have "str_includes (style_backgroundImage (active_layer ?s)) ''black.jpeg''"
    by (simp add: active_layer_def str_includes_url_text scenario_plain)
  then have "globalBG_entry css_none ?s ?e = set_tint (or_null None) ?s"
    using globalBG_entry_same [of ?e "''black.jpeg''" ?s css_none]
    by (simp add: entered_def marker_def)
  then have "globalBG_callback css_none ?s [?e] = ?s"
    by (simp add: globalBG_callback_def set_tint_def or_null_def)
  then have a': "variantA (foldl (deliver css_none) ?g [Io [?e]]) =
      Running ?s [(marker (Some ''1'') (Some ''black.jpeg'') None)\<lparr>style_height := ''120px''\<rparr>]"
    using a by (simp add: deliver_def)
  have c: "case variantB ?g of NotStarted x \<Rightarrow> False
    | Running c ms \<Rightarrow> is_active (bgA c) \<and> is_active (bgB c)"
    by (simp add: b scrollDrivenBackground_def)
      (simp add: authored_page_def chaptersBG_def pinned_chapters_def Let_def setActivePanel_fields
        is_active_el)
  show ?thesis
    using n c by (simp only: a a' started.case) simp
qed

text \<open>
  Claim C3, as amended. In both variants, when exactly one of the two layers is marked
  active, the same holds after the callback has processed any list of entries. The
  layers that the bootstrap creates for a page without \<^verbatim>\<open>.global-bg\<close>, and for a
  \<^verbatim>\<open>.chapters\<close> block with neither layer, start with exactly one layer marked active, so
  on such a page each variant that runs has exactly one active layer at the start and
  after every batch of entries. Whatever the marks before it, after an entry that swaps
  the layers (it flips \<^verbatim>\<open>useA\<close>) exactly one layer is marked active.
\<close>

theorem exactly_one_layer_active:
  "(one_layer_active (layerA s) (layerB s) \<longrightarrow>
      one_layer_active (layerA (globalBG_callback css s es)) (layerB (globalBG_callback css s es)))
   \<and> (one_layer_active (bgA c) (bgB c) \<longrightarrow>
      one_layer_active (bgA (chaptersBG_callback css c es)) (bgB (chaptersBG_callback css c es)))
   \<and> (global_bg d = None \<longrightarrow>
      one_active_A (foldl (deliver css) (scrollDrivenBackground css False (bootstrap_layers d)) bs))
   \<and> ((case chapters d of None \<Rightarrow> True
        | Some ch \<Rightarrow> chapters_bgA ch = None \<and> chapters_bgB ch = None) \<longrightarrow>
      one_active_B (foldl (deliver css) (scrollDrivenBackground css False (bootstrap_layers d)) bs))
   \<and> (useA (globalBG_entry css s e) \<noteq> useA s \<longrightarrow>
      one_layer_active (layerA (globalBG_entry css s e)) (layerB (globalBG_entry css s e)))
   \<and> (c_useA (chaptersBG_entry css c e) \<noteq> c_useA c \<longrightarrow>
      one_layer_active (bgA (chaptersBG_entry css c e)) (bgB (chaptersBG_entry css c e)))"
proof -
  have "one_active_A (foldl (deliver css) (scrollDrivenBackground css False (bootstrap_layers d)) bs)"
    if "global_bg d = None"
    using that by (intro run_one_active_A start_one_active_A)
  moreover
  have "one_active_B (foldl (deliver css) (scrollDrivenBackground css False (bootstrap_layers d)) bs)"
    if "case chapters d of None \<Rightarrow> True
        | Some ch \<Rightarrow> chapters_bgA ch = None \<and> chapters_bgB ch = None"
    using that by (intro run_one_active_B start_one_active_B)
  ultimately show ?thesis
    using globalBG_callback_one_active [of s css es] chaptersBG_callback_one_active [of c css es]
      globalBG_entry_swap_one_active [of css s e] chaptersBG_entry_swap_one_active [of css c e]
    by blast
qed

text \<open>
  Claim C3, as amended, on the page \<open>demo_page\<close>: both variants run; the start states
  are those of the scenarios, with one layer active, before and after entries. From the
  state of \<open>authored_page\<close> with no layer active, the entry with \<^verbatim>\<open>white.jpeg\<close> swaps and
  leaves one layer active.
\<close>

theorem exactly_one_layer_active_witness:
  "global_bg demo_page = None
   \<and> variantA (scrollDrivenBackground css_none False (bootstrap_layers demo_page)) =
       Running crossfade_start
         [(marker (Some ''1'') (Some ''black.jpeg'') None)\<lparr>style_height := ''120px''\<rparr>,
          (marker (Some ''2'') (Some ''white.jpeg'') (Some ''rgba(1,2,3,.1)''))\<lparr>style_height := ''120px''\<rparr>]
   \<and> variantB (scrollDrivenBackground css_none False (bootstrap_layers demo_page)) =
       Running pinned_start [pinned_S1, pinned_S2]
   \<and> one_layer_active (layerA crossfade_start) (layerB crossfade_start)
   \<and> one_layer_active (layerA (globalBG_callback css_none crossfade_start [crossfade_event]))
        (layerB (globalBG_callback css_none crossfade_start [crossfade_event]))
   \<and> one_layer_active (bgA pinned_start) (bgB pinned_start)
   \<and> one_layer_active (bgA (chaptersBG_callback css_none pinned_start [entered pinned_S1]))
        (bgB (chaptersBG_callback css_none pinned_start [entered pinned_S1]))
   \<and> one_active_A (foldl (deliver css_none)
        (scrollDrivenBackground css_none False (bootstrap_layers demo_page))
        [Io [crossfade_event], Io2 [entered pinned_S1]])
   \<and> one_active_B (foldl (deliver css_none)
        (scrollDrivenBackground css_none False (bootstrap_layers demo_page))
        [Io [crossfade_event], Io2 [entered pinned_S1]])
   \<and> useA (globalBG_entry css_none (crossfade_start\<lparr>layerA := el [''g-bg'', ''g-bgA'']\<rparr>)
        crossfade_event) \<noteq> useA (crossfade_start\<lparr>layerA := el [''g-bg'', ''g-bgA'']\<rparr>)
   \<and> one_layer_active
        (layerA (globalBG_entry css_none (crossfade_start\<lparr>layerA := el [''g-bg'', ''g-bgA'']\<rparr>)
           crossfade_event))
        (layerB (globalBG_entry css_none (crossfade_start\<lparr>layerA := el [''g-bg'', ''g-bgA'']\<rparr>)
           crossfade_event))
   \<and> c_useA (chaptersBG_entry css_none pinned_start (entered pinned_S1)) \<noteq> c_useA pinned_start
   \<and> one_layer_active (bgA (chaptersBG_entry css_none pinned_start (entered pinned_S1)))
        (bgB (chaptersBG_entry css_none pinned_start (entered pinned_S1)))"
proof -
  let ?s = "crossfade_start\<lparr>layerA := el [''g-bg'', ''g-bgA'']\<rparr>"
  have g: "global_bg demo_page = None"
    and ch: "(case chapters demo_page of None \<Rightarrow> True
        | Some ch \<Rightarrow> chapters_bgA ch = None \<and> chapters_bgB ch = None)"
    by (simp_all add: demo_page_def pinned_chapters_def)
  have a: "one_layer_active (layerA crossfade_start) (layerB crossfade_start)"
    by (simp add: one_layer_active_def crossfade_start_def is_active_def classList_contains_def el_def)
  have b: "one_layer_active (bgA pinned_start) (bgB pinned_start)"
    by (simp add: one_layer_active_def pinned_start_def is_active_def classList_contains_def el_def)
  have "\<not> str_includes (style_backgroundImage (active_layer ?s)) ''white.jpeg''"
    by (simp add: active_layer_def crossfade_start_def el_def)
  then have "globalBG_entry css_none ?s crossfade_event =
      set_tint (or_null (data_tint (target crossfade_event))) (swap_layers css_none ''white.jpeg'' ?s)"
    by (intro globalBG_entry_swap) (simp_all add: crossfade_event_def entered_def marker_def)
  then have u: "useA (globalBG_entry css_none ?s crossfade_event) \<noteq> useA ?s"
    by (simp add: set_tint_fields swap_layers_fields)
  have "\<not> str_includes (style_backgroundImage (c_active_layer pinned_start)) ''a.jpg''"
    by (simp add: c_active_layer_def pinned_start_def el_def)
  then have "chaptersBG_entry css_none pinned_start (entered pinned_S1) =
      setActivePanel (or_else (data_idx (target (entered pinned_S1))) [])
        (c_swap_layers css_none ''a.jpg'' pinned_start)"
    by (intro chaptersBG_entry_swap) (simp_all add: entered_def pinned_S1_def)
  then have v: "c_useA (chaptersBG_entry css_none pinned_start (entered pinned_S1)) \<noteq>
      c_useA pinned_start"
    by (simp add: setActivePanel_fields c_swap_layers_fields)
  show ?thesis
    using g ch a b u v crossfade_setup [of css_none] demo_pinned_setup [of css_none]
      exactly_one_layer_active [of crossfade_start css_none "[crossfade_event]" pinned_start
        demo_page "[Io [crossfade_event], Io2 [entered pinned_S1]]" crossfade_event]
      exactly_one_layer_active [of ?s css_none "[entered pinned_S1]" pinned_start demo_page
        "[Io [crossfade_event], Io2 [entered pinned_S1]]" crossfade_event]
      exactly_one_layer_active [of crossfade_start css_none "[entered pinned_S1]" pinned_start
        demo_page "[Io [crossfade_event], Io2 [entered pinned_S1]]" "entered pinned_S1"]
    by simp
qed

subsection \<open>Entries that repeat an image\<close>

lemma globalBG_entry_shows:
  assumes "isIntersecting e" and "truthy (data_bg (target e))"
    and "css_plain (or_else (data_bg (target e)) [])"
  shows "showing (data_bg (target e)) (active_layer (globalBG_entry css s e))"
proof -
  from assms(2) obtain url where u: "data_bg (target e) = Some url" "url \<noteq> []"
    using truthy_cases by blast
  show ?thesis
  proof (cases "str_includes (style_backgroundImage (active_layer s)) url")
    case True
    with assms(1) u show ?thesis
      by (simp add: globalBG_entry_same showing_def active_layer_simps)
  next
    case False
    with assms(1) u show ?thesis
      using assms(3)
      by (simp add: globalBG_entry_swap showing_def active_layer_simps str_includes_url_text
          set_backgroundImage_kept css_plain_kept)
  qed
qed

lemma globalBG_entry_shown:
  assumes "showing (data_bg (target e)) (active_layer s)"
  shows "\<exists>ov. globalBG_entry css s e = s\<lparr>overlay := ov\<rparr>"
proof (cases "isIntersecting e")
  case False
  then have "globalBG_entry css s e = s\<lparr>overlay := overlay s\<rparr>"
    by (simp add: globalBG_entry_def)
  then show ?thesis ..
next
  case True
  with assms have "globalBG_entry css s e = set_tint (or_null (data_tint (target e))) s"
    by (simp add: globalBG_entry_def showing_def Let_def)
  moreover have "set_tint t s = s\<lparr>overlay := overlay (set_tint t s)\<rparr>" for t
    by (simp add: set_tint_def split: option.splits)
  ultimately show ?thesis
    by metis
qed

lemma globalBG_callback_shown:
  assumes "showing url (active_layer s)"
    and "list_all (\<lambda>e. data_bg (target e) = url) es"
  shows "\<exists>ov. globalBG_callback css s es = s\<lparr>overlay := ov\<rparr>"
  using assms
proof (induction es arbitrary: s)
  case Nil
  have "globalBG_callback css s [] = s\<lparr>overlay := overlay s\<rparr>"
    by (simp add: globalBG_callback_def)
  then show ?case ..
next
  case (Cons e es)
  then have "showing (data_bg (target e)) (active_layer s)"
    by simp
  then obtain ov where ov: "globalBG_entry css s e = s\<lparr>overlay := ov\<rparr>"
    using globalBG_entry_shown by blast
  have "showing url (active_layer (s\<lparr>overlay := ov\<rparr>))"
    using Cons.prems(1) by (simp add: active_layer_simps)
  moreover have "list_all (\<lambda>e. data_bg (target e) = url) es"
    using Cons.prems(2) by simp
  ultimately obtain ov' where "globalBG_callback css (s\<lparr>overlay := ov\<rparr>) es = s\<lparr>overlay := ov, overlay := ov'\<rparr>"
    using Cons.IH by blast
  then have "globalBG_callback css s (e # es) = s\<lparr>overlay := ov'\<rparr>"
    by (simp add: globalBG_callback_def ov)
  then show ?case ..
qed

lemma globalBG_callback_falsy:
  assumes "\<not> truthy url" and "list_all (\<lambda>e. data_bg (target e) = url) es"
  shows "globalBG_callback css s es = s"
  using assms unfolding globalBG_callback_def
  by (induction es arbitrary: s) (simp_all add: globalBG_entry_falsy)

lemma globalBG_repeat:
  assumes "isIntersecting e"
    and "list_all (\<lambda>e'. data_bg (target e') = data_bg (target e)) es"
    and "css_plain (or_else (data_bg (target e)) [])"
  shows "\<exists>ov. globalBG_callback css (globalBG_entry css s e) es = (globalBG_entry css s e)\<lparr>overlay := ov\<rparr>"
proof (cases "truthy (data_bg (target e))")
  case True
  from globalBG_callback_shown [OF globalBG_entry_shows [OF assms(1) True assms(3)] assms(2)]
  show ?thesis .
next
  case False
  from globalBG_callback_falsy [OF False assms(2)]
  have "globalBG_callback css (globalBG_entry css s e) es = (globalBG_entry css s e)\<lparr>overlay := overlay (globalBG_entry css s e)\<rparr>"
    by simp
  then show ?thesis ..
qed

lemma chaptersBG_entry_shows:
  assumes "isIntersecting e" and "truthy (data_bg (target e))"
    and "css_plain (or_else (data_bg (target e)) [])"
  shows "showing (data_bg (target e)) (c_active_layer (chaptersBG_entry css s e))"
proof -
  from assms(2) obtain url where u: "data_bg (target e) = Some url" "url \<noteq> []"
    using truthy_cases by blast
  show ?thesis
  proof (cases "str_includes (style_backgroundImage (c_active_layer s)) url")
    case True
    with assms(1) u show ?thesis
      by (simp add: chaptersBG_entry_same showing_def c_active_layer_simps)
  next
    case False
    with assms(1) u show ?thesis
      using assms(3)
      by (simp add: chaptersBG_entry_swap showing_def c_active_layer_simps str_includes_url_text
          set_backgroundImage_kept css_plain_kept)
  qed
qed

lemma chaptersBG_entry_shown:
  assumes "showing (data_bg (target e)) (c_active_layer s)"
  shows "\<exists>idx ps. chaptersBG_entry css s e = s\<lparr>panels := ps, dataset_active := idx\<rparr>"
proof (cases "isIntersecting e")
  case False
  then have "chaptersBG_entry css s e = s\<lparr>panels := panels s, dataset_active := dataset_active s\<rparr>"
    by (simp add: chaptersBG_entry_def)
  then show ?thesis by blast
next
  case True
  with assms have "chaptersBG_entry css s e = setActivePanel (or_else (data_idx (target e)) []) s"
    by (simp add: chaptersBG_entry_def showing_def Let_def)
  moreover have "setActivePanel i s = s\<lparr>panels := panels (setActivePanel i s), dataset_active := i\<rparr>" for i
    by (simp add: setActivePanel_def)
  ultimately show ?thesis
    by metis
qed

lemma chaptersBG_callback_shown:
  assumes "showing url (c_active_layer s)"
    and "list_all (\<lambda>e. data_bg (target e) = url) es"
  shows "\<exists>idx ps. chaptersBG_callback css s es = s\<lparr>panels := ps, dataset_active := idx\<rparr>"
  using assms
proof (induction es arbitrary: s)
  case Nil
  have "chaptersBG_callback css s [] = s\<lparr>panels := panels s, dataset_active := dataset_active s\<rparr>"
    by (simp add: chaptersBG_callback_def)
  then show ?case by blast
next
  case (Cons e es)
  then have "showing (data_bg (target e)) (c_active_layer s)"
    by simp
  then obtain i ps where st: "chaptersBG_entry css s e = s\<lparr>panels := ps, dataset_active := i\<rparr>"
    using chaptersBG_entry_shown by blast
  have "showing url (c_active_layer (s\<lparr>panels := ps, dataset_active := i\<rparr>))"
    using Cons.prems(1) by (simp add: c_active_layer_simps)
  moreover have "list_all (\<lambda>e. data_bg (target e) = url) es"
    using Cons.prems(2) by simp
  ultimately obtain i' ps' where
    "chaptersBG_callback css (s\<lparr>panels := ps, dataset_active := i\<rparr>) es =
       s\<lparr>panels := ps, dataset_active := i, panels := ps', dataset_active := i'\<rparr>"
    using Cons.IH by blast
  then have "chaptersBG_callback css s (e # es) = s\<lparr>panels := ps', dataset_active := i'\<rparr>"
    by (simp add: chaptersBG_callback_def st)
  then show ?case by blast
qed

lemma chaptersBG_callback_falsy:
  assumes "\<not> truthy url" and "list_all (\<lambda>e. data_bg (target e) = url) es"
  shows "chaptersBG_callback css s es = s"
  using assms unfolding chaptersBG_callback_def
  by (induction es arbitrary: s) (simp_all add: chaptersBG_entry_falsy)

lemma chaptersBG_repeat:
  assumes "isIntersecting e"
    and "list_all (\<lambda>e'. data_bg (target e') = data_bg (target e)) es"
    and "css_plain (or_else (data_bg (target e)) [])"
  shows "\<exists>idx ps. chaptersBG_callback css (chaptersBG_entry css s e) es =
     (chaptersBG_entry css s e)\<lparr>panels := ps, dataset_active := idx\<rparr>"
proof (cases "truthy (data_bg (target e))")
  case True
  from chaptersBG_callback_shown [OF chaptersBG_entry_shows [OF assms(1) True assms(3)] assms(2)]
  show ?thesis .
next
  case False
  from chaptersBG_callback_falsy [OF False assms(2)]
  have "chaptersBG_callback css (chaptersBG_entry css s e) es =
    (chaptersBG_entry css s e)\<lparr>panels := panels (chaptersBG_entry css s e),
       dataset_active := dataset_active (chaptersBG_entry css s e)\<rparr>"
    by simp
  then show ?thesis by blast
qed

text \<open>
  For an image address of the characters of \<open>url_chars\<close>: after a marker has entered, any
  further entries whose markers carry the same \<^verbatim>\<open>data-bg\<close> change neither layer, nor
  \<^verbatim>\<open>useA\<close>, nor the preloads requested, in either variant.
\<close>

lemma repeated_plain_image_no_swap:
  assumes "isIntersecting e"
    and "list_all (\<lambda>e'. data_bg (target e') = data_bg (target e)) es"
    and "css_plain (or_else (data_bg (target e)) [])"
  shows "layerA (globalBG_callback css (globalBG_entry css s e) es) = layerA (globalBG_entry css s e)
       \<and> layerB (globalBG_callback css (globalBG_entry css s e) es) = layerB (globalBG_entry css s e)
       \<and> useA (globalBG_callback css (globalBG_entry css s e) es) = useA (globalBG_entry css s e)
       \<and> requested (globalBG_callback css (globalBG_entry css s e) es) = requested (globalBG_entry css s e)
       \<and> bgA (chaptersBG_callback css (chaptersBG_entry css c e) es) = bgA (chaptersBG_entry css c e)
       \<and> bgB (chaptersBG_callback css (chaptersBG_entry css c e) es) = bgB (chaptersBG_entry css c e)
       \<and> c_useA (chaptersBG_callback css (chaptersBG_entry css c e) es) = c_useA (chaptersBG_entry css c e)
       \<and> c_requested (chaptersBG_callback css (chaptersBG_entry css c e) es) =
           c_requested (chaptersBG_entry css c e)"
proof -
  from globalBG_repeat [OF assms] obtain ov where
    "globalBG_callback css (globalBG_entry css s e) es = (globalBG_entry css s e)\<lparr>overlay := ov\<rparr>"
    by blast
  moreover from chaptersBG_repeat [OF assms] obtain i ps where
    "chaptersBG_callback css (chaptersBG_entry css c e) es =
       (chaptersBG_entry css c e)\<lparr>panels := ps, dataset_active := i\<rparr>"
    by blast
  ultimately show ?thesis
    by simp
qed


text \<open>
  Claim C4 asks that of two entries in a row with the same image only the first swaps.
  With the image address \<^verbatim>\<open>a"b.jpg\<close> what is read back on the active layer is
  \<^verbatim>\<open>url("a\"b.jpg")\<close>, in which the address does not occur. In the global variant, from
  the cross-fade scenario, the first entry swaps to layer B, and the second entry with
  the same marker swaps back to layer A and requests the preload again. The same in
  the pinned variant, from the start on two panels.
\<close>

theorem quoted_image_swapped_again:
  "isIntersecting quoted_event
   \<and> data_bg (target quoted_event) = Some quoted_jpg
   \<and> useA crossfade_start
   \<and> \<not> useA (globalBG_entry css crossfade_start quoted_event)
   \<and> style_backgroundImage (active_layer (globalBG_entry css crossfade_start quoted_event)) =
       quoted_text
   \<and> \<not> str_includes quoted_text quoted_jpg
   \<and> useA (globalBG_callback css crossfade_start [quoted_event, quoted_event])
   \<and> is_active (layerA (globalBG_callback css crossfade_start [quoted_event, quoted_event]))
   \<and> \<not> is_active (layerB (globalBG_callback css crossfade_start [quoted_event, quoted_event]))
   \<and> style_backgroundImage (layerA (globalBG_callback css crossfade_start [quoted_event, quoted_event]))
       = quoted_text
   \<and> requested (globalBG_callback css crossfade_start [quoted_event, quoted_event]) =
       [''black.jpeg'', quoted_jpg, quoted_jpg]
   \<and> c_useA pinned_start
   \<and> \<not> c_useA (chaptersBG_entry css pinned_start quoted_S1)
   \<and> c_useA (chaptersBG_callback css pinned_start [quoted_S1, quoted_S1])
   \<and> c_requested (chaptersBG_callback css pinned_start [quoted_S1, quoted_S1]) =
       [quoted_jpg, quoted_jpg]"
proof -
  let ?s1 = "swap_layers css quoted_jpg crossfade_start"
  let ?c1 = "setActivePanel ''1'' (c_swap_layers css quoted_jpg pinned_start)"
  have e: "isIntersecting quoted_event" "data_bg (target quoted_event) = Some quoted_jpg"
    "data_tint (target quoted_event) = None"
    by (simp_all add: quoted_event_def entered_def marker_def)
  have u: "useA crossfade_start" "requested crossfade_start = [''black.jpeg'']"
    "style_backgroundImage (layerA crossfade_start) = url_text ''black.jpeg''"
    by (simp_all add: crossfade_start_def)
  have t: "set_tint (or_null None) s = s" for s
    by (simp add: set_tint_def or_null_def split: option.splits)
  have "\<not> str_includes (style_backgroundImage (active_layer crossfade_start)) quoted_jpg"
    by (simp add: active_layer_def u quoted_not_included)
  then have s1: "globalBG_entry css crossfade_start quoted_event = ?s1"
    using globalBG_entry_swap [of quoted_event quoted_jpg crossfade_start css] e quoted_kept
    by (simp add: t)
  have a1: "style_backgroundImage (active_layer ?s1) = quoted_text" and u1: "\<not> useA ?s1"
    by (simp_all add: active_layer_simps u swap_layers_fields set_backgroundImage_kept quoted_kept
        quoted_url_text)
  then have "\<not> str_includes (style_backgroundImage (active_layer ?s1)) quoted_jpg"
    by (simp add: quoted_not_included)
  then have s2: "globalBG_entry css ?s1 quoted_event = swap_layers css quoted_jpg ?s1"
    using globalBG_entry_swap [of quoted_event quoted_jpg ?s1 css] e quoted_kept
    by (simp add: t)
  have g2: "globalBG_callback css crossfade_start [quoted_event, quoted_event] =
      swap_layers css quoted_jpg ?s1"
    by (simp add: globalBG_callback_def s1 s2)
  have e': "isIntersecting quoted_S1" "data_bg (target quoted_S1) = Some quoted_jpg"
    "data_idx (target quoted_S1) = Some ''1''"
    by (simp_all add: quoted_S1_def entered_def chapter_marker_def)
  have v: "c_useA pinned_start" "c_requested pinned_start = []"
    "style_backgroundImage (bgA pinned_start) = []"
    by (simp_all add: pinned_start_def el_def)
  have "\<not> str_includes (style_backgroundImage (c_active_layer pinned_start)) quoted_jpg"
    by (simp add: c_active_layer_def v quoted_kept)
  then have c1: "chaptersBG_entry css pinned_start quoted_S1 = ?c1"
    using chaptersBG_entry_swap [of quoted_S1 quoted_jpg pinned_start css] e' quoted_kept
    by simp
  have b1: "style_backgroundImage (c_active_layer ?c1) = quoted_text" and v1: "\<not> c_useA ?c1"
    by (simp_all add: c_active_layer_simps v c_swap_layers_fields setActivePanel_fields
        set_backgroundImage_kept quoted_kept quoted_url_text)
  then have "\<not> str_includes (style_backgroundImage (c_active_layer ?c1)) quoted_jpg"
    by (simp add: quoted_not_included)
  then have c2: "chaptersBG_entry css ?c1 quoted_S1 =
      setActivePanel ''1'' (c_swap_layers css quoted_jpg ?c1)"
    using chaptersBG_entry_swap [of quoted_S1 quoted_jpg ?c1 css] e' quoted_kept
    by simp
  have h2: "chaptersBG_callback css pinned_start [quoted_S1, quoted_S1] =
      setActivePanel ''1'' (c_swap_layers css quoted_jpg ?c1)"
    by (simp add: chaptersBG_callback_def c1 c2)
  show ?thesis
    using e u v
    by (simp add: s1 g2 c1 h2 a1 u1 v1 quoted_not_included swap_layers_fields quoted_kept
        c_swap_layers_fields setActivePanel_fields set_backgroundImage_kept quoted_url_text)
qed

subsection \<open>The panel follows the segment\<close>

text \<open>
  For an image address of the characters of \<open>url_chars\<close> that is not yet showing, in the
  pinned variant: let S1 and S2 enter in this order, both with this image and with the
  indices \<open>i1\<close> and \<open>i2\<close>. After S1 the active layer shows the image and the current
  panels are those with the index \<open>i1\<close>. After S2 the layers, \<^verbatim>\<open>useA\<close> and the preloads
  are as after S1 (no swap), and the current panels are those with the index \<open>i2\<close>.
\<close>

lemma panel_follows_segment:
  assumes "isIntersecting S1" and "data_bg (target S1) = Some url"
    and "data_idx (target S1) = Some i1"
    and "isIntersecting S2" and "data_bg (target S2) = Some url"
    and "data_idx (target S2) = Some i2"
    and "\<not> str_includes (style_backgroundImage (c_active_layer c)) url"
    and "url \<noteq> []" and "css_plain url"
  shows "dataset_active (chaptersBG_entry css c S1) = i1
       \<and> map is_active (panels (chaptersBG_entry css c S1)) =
           map (\<lambda>p. data_idx p = Some i1) (panels c)
       \<and> style_backgroundImage (c_active_layer (chaptersBG_entry css c S1)) = url_text url
       \<and> is_active (c_active_layer (chaptersBG_entry css c S1))
       \<and> \<not> is_active (c_inactive_layer (chaptersBG_entry css c S1))
       \<and> bgA (chaptersBG_entry css (chaptersBG_entry css c S1) S2) = bgA (chaptersBG_entry css c S1)
       \<and> bgB (chaptersBG_entry css (chaptersBG_entry css c S1) S2) = bgB (chaptersBG_entry css c S1)
       \<and> c_useA (chaptersBG_entry css (chaptersBG_entry css c S1) S2) = c_useA (chaptersBG_entry css c S1)
       \<and> c_requested (chaptersBG_entry css (chaptersBG_entry css c S1) S2) =
           c_requested (chaptersBG_entry css c S1)
       \<and> dataset_active (chaptersBG_entry css (chaptersBG_entry css c S1) S2) = i2
       \<and> map is_active (panels (chaptersBG_entry css (chaptersBG_entry css c S1) S2)) =
           map (\<lambda>p. data_idx p = Some i2) (panels c)"
proof -
  note ne = assms(8)
  have s1: "chaptersBG_entry css c S1 = setActivePanel i1 (c_swap_layers css url c)"
    using chaptersBG_entry_swap [OF assms(1) assms(2) ne assms(7)] assms(3) by simp
  have act: "c_active_layer (chaptersBG_entry css c S1) =
      classList_add ''is-active'' ((c_inactive_layer c)\<lparr>style_backgroundImage := url_text url\<rparr>)"
    and inact: "c_inactive_layer (chaptersBG_entry css c S1) = classList_remove ''is-active'' (c_active_layer c)"
    using assms(9)
    by (simp_all add: s1 c_active_layer_simps set_backgroundImage_kept css_plain_kept)
  have inc: "str_includes (style_backgroundImage (c_active_layer (chaptersBG_entry css c S1))) url"
    by (simp add: act str_includes_url_text assms(9))
  have s2: "chaptersBG_entry css (chaptersBG_entry css c S1) S2 = setActivePanel i2 (chaptersBG_entry css c S1)"
    using chaptersBG_entry_same [OF assms(4) assms(5) ne inc] assms(6) by simp
  have p1: "map is_active (panels (chaptersBG_entry css c S1)) = map (\<lambda>p. data_idx p = Some i1) (panels c)"
    and d1: "map data_idx (panels (chaptersBG_entry css c S1)) = map data_idx (panels c)"
    by (simp_all add: s1 setActivePanel_current c_swap_layers_fields)
  have "map is_active (panels (chaptersBG_entry css (chaptersBG_entry css c S1) S2)) =
      map (\<lambda>p. data_idx p = Some i2) (panels (chaptersBG_entry css c S1))"
    by (simp add: s2 setActivePanel_current)
  also have "\<dots> = map ((\<lambda>i. i = Some i2) \<circ> data_idx) (panels (chaptersBG_entry css c S1))"
    by (simp add: comp_def)
  also have "\<dots> = map (\<lambda>i. i = Some i2) (map data_idx (panels c))"
    by (simp only: map_map [symmetric] d1)
  finally have p2: "map is_active (panels (chaptersBG_entry css (chaptersBG_entry css c S1) S2)) =
      map (\<lambda>p. data_idx p = Some i2) (panels c)"
    by (simp add: comp_def)
  have "dataset_active (chaptersBG_entry css c S1) = i1"
    by (simp add: s1 setActivePanel_fields)
  moreover have "style_backgroundImage (c_active_layer (chaptersBG_entry css c S1)) = url_text url"
    "is_active (c_active_layer (chaptersBG_entry css c S1))"
    "\<not> is_active (c_inactive_layer (chaptersBG_entry css c S1))"
    by (simp_all add: act inact)
  moreover have "bgA (chaptersBG_entry css (chaptersBG_entry css c S1) S2) = bgA (chaptersBG_entry css c S1)"
    "bgB (chaptersBG_entry css (chaptersBG_entry css c S1) S2) = bgB (chaptersBG_entry css c S1)"
    "c_useA (chaptersBG_entry css (chaptersBG_entry css c S1) S2) = c_useA (chaptersBG_entry css c S1)"
    "c_requested (chaptersBG_entry css (chaptersBG_entry css c S1) S2) = c_requested (chaptersBG_entry css c S1)"
    "dataset_active (chaptersBG_entry css (chaptersBG_entry css c S1) S2) = i2"
    by (simp_all only: s2 setActivePanel_fields)
  ultimately show ?thesis
    using p1 p2 by simp
qed


text \<open>
  Claim C5 asks that an entry whose image is the one already shown performs no swap
  and still moves the current panel. With the image address \<^verbatim>\<open>a"b.jpg\<close> on both
  markers, from the start of \<^verbatim>\<open>chaptersBG\<close> on two panels: S1 (index 1) swaps to layer
  B, which then reads \<^verbatim>\<open>url("a\"b.jpg")\<close>, and panel 1 is current; S2 (index 2) makes
  panel 2 current and swaps again, back to layer A, with a second preload of the image.
\<close>

theorem quoted_segment_swapped_again:
  "chaptersBG (Some pinned_chapters) = Running pinned_start [pinned_S1, pinned_S2]
   \<and> isIntersecting quoted_S1 \<and> isIntersecting quoted_S2
   \<and> data_bg (target quoted_S1) = Some quoted_jpg
   \<and> data_bg (target quoted_S2) = Some quoted_jpg
   \<and> data_idx (target quoted_S1) = Some ''1''
   \<and> data_idx (target quoted_S2) = Some ''2''
   \<and> c_useA pinned_start
   \<and> \<not> c_useA (chaptersBG_entry css pinned_start quoted_S1)
   \<and> style_backgroundImage (c_active_layer (chaptersBG_entry css pinned_start quoted_S1)) =
       quoted_text
   \<and> dataset_active (chaptersBG_entry css pinned_start quoted_S1) = ''1''
   \<and> map is_active (panels (chaptersBG_entry css pinned_start quoted_S1)) = [True, False]
   \<and> c_useA (chaptersBG_callback css pinned_start [quoted_S1, quoted_S2])
   \<and> is_active (bgA (chaptersBG_callback css pinned_start [quoted_S1, quoted_S2]))
   \<and> \<not> is_active (bgB (chaptersBG_callback css pinned_start [quoted_S1, quoted_S2]))
   \<and> style_backgroundImage (bgA (chaptersBG_callback css pinned_start [quoted_S1, quoted_S2])) =
       quoted_text
   \<and> c_requested (chaptersBG_callback css pinned_start [quoted_S1, quoted_S2]) =
       [quoted_jpg, quoted_jpg]
   \<and> dataset_active (chaptersBG_callback css pinned_start [quoted_S1, quoted_S2]) = ''2''
   \<and> map is_active (panels (chaptersBG_callback css pinned_start [quoted_S1, quoted_S2])) =
       [False, True]"
proof -
  let ?c1 = "setActivePanel ''1'' (c_swap_layers css quoted_jpg pinned_start)"
  have e: "isIntersecting quoted_S1" "data_bg (target quoted_S1) = Some quoted_jpg"
    "data_idx (target quoted_S1) = Some ''1''"
    "isIntersecting quoted_S2" "data_bg (target quoted_S2) = Some quoted_jpg"
    "data_idx (target quoted_S2) = Some ''2''"
    by (simp_all add: quoted_S1_def quoted_S2_def entered_def chapter_marker_def)
  have v: "c_useA pinned_start" "c_requested pinned_start = []"
    "style_backgroundImage (bgA pinned_start) = []"
    by (simp_all add: pinned_start_def el_def)
  have p: "map (\<lambda>p. data_idx p = Some ''1'') (panels pinned_start) = [True, False]"
    "map (\<lambda>p. data_idx p = Some ''2'') (panels pinned_start) = [False, True]"
    by (simp_all add: pinned_start_def)
  have "\<not> str_includes (style_backgroundImage (c_active_layer pinned_start)) quoted_jpg"
    by (simp add: c_active_layer_def v quoted_kept)
  then have c1: "chaptersBG_entry css pinned_start quoted_S1 = ?c1"
    using chaptersBG_entry_swap [of quoted_S1 quoted_jpg pinned_start css] e quoted_kept
    by simp
  have b1: "style_backgroundImage (c_active_layer ?c1) = quoted_text" and v1: "\<not> c_useA ?c1"
    by (simp_all add: c_active_layer_simps v c_swap_layers_fields setActivePanel_fields
        set_backgroundImage_kept quoted_kept quoted_url_text)
  then have "\<not> str_includes (style_backgroundImage (c_active_layer ?c1)) quoted_jpg"
    by (simp add: quoted_not_included)
  then have c2: "chaptersBG_entry css ?c1 quoted_S2 =
      setActivePanel ''2'' (c_swap_layers css quoted_jpg ?c1)"
    using chaptersBG_entry_swap [of quoted_S2 quoted_jpg ?c1 css] e quoted_kept
    by simp
  have h2: "chaptersBG_callback css pinned_start [quoted_S1, quoted_S2] =
      setActivePanel ''2'' (c_swap_layers css quoted_jpg ?c1)"
    by (simp add: chaptersBG_callback_def c1 c2)
  have m1: "map is_active (panels ?c1) = [True, False]"
    by (simp add: setActivePanel_current c_swap_layers_fields p)
  have "map data_idx (panels ?c1) = map data_idx (panels pinned_start)"
    by (simp add: setActivePanel_current c_swap_layers_fields)
  then have "map ((\<lambda>i. i = Some ''2'') \<circ> data_idx) (panels ?c1) =
      map ((\<lambda>i. i = Some ''2'') \<circ> data_idx) (panels pinned_start)"
    by (simp only: map_map [symmetric])
  then have m2: "map is_active (panels (setActivePanel ''2'' (c_swap_layers css quoted_jpg ?c1))) =
      [False, True]"
    using p(2) by (simp add: setActivePanel_current c_swap_layers_fields comp_def)
  show ?thesis
    using e v pinned_setup m1 m2
    by (simp add: c1 h2 b1 v1 c_swap_layers_fields setActivePanel_fields quoted_kept
        set_backgroundImage_kept quoted_url_text)
qed

subsection \<open>The current panel\<close>

lemma panels_track_setActivePanel: "panels_track (setActivePanel idx c)"
  by (simp add: panels_track_def setActivePanel_fields comp_def)

lemma panels_track_entry: "panels_track c \<Longrightarrow> panels_track (chaptersBG_entry css c e)"
  by (simp add: chaptersBG_entry_def Let_def panels_track_setActivePanel)

lemma panels_track_callback: "panels_track c \<Longrightarrow> panels_track (chaptersBG_callback css c es)"
  unfolding chaptersBG_callback_def
  by (induction es arbitrary: c) (simp_all add: panels_track_entry)

lemma panels_track_start:
  assumes "chaptersBG chaps = Running c ms"
  shows "panels_track c"
proof (cases chaps)
  case None
  with assms show ?thesis by (simp add: chaptersBG_def)
next
  case (Some ch)
  with assms show ?thesis
    by (auto simp add: chaptersBG_def Let_def panels_track_setActivePanel split: if_splits)
qed

lemma dataset_active_start:
  assumes "chaptersBG (Some ch) = Running c ms"
  shows "dataset_active c = or_else (data_active ch) ''1''"
  using assms
  by (auto simp add: chaptersBG_def Let_def setActivePanel_fields split: if_splits)

lemma dataset_active_entry:
  assumes "isIntersecting e" and "truthy (data_bg (target e))"
  shows "dataset_active (chaptersBG_entry css c e) = or_else (data_idx (target e)) []"
  using assms by (simp add: chaptersBG_entry_def Let_def setActivePanel_fields)

lemma panels_track_one:
  assumes "panels_track c" and "distinct (map data_idx (panels c))"
    and "Some (dataset_active c) \<in> set (map data_idx (panels c))"
  shows "length (filter is_active (panels c)) = 1"
proof -
  from assms(1) have "filter is_active (panels c) =
      filter (\<lambda>p. data_idx p = Some (dataset_active c)) (panels c)"
    unfolding panels_track_def by (rule filter_cong_map)
  with one_match [OF assms(2) assms(3)] show ?thesis
    by simp
qed

lemma panels_track_none:
  assumes "panels_track c" and "Some (dataset_active c) \<notin> set (map data_idx (panels c))"
  shows "filter is_active (panels c) = []"
proof -
  from assms(1) have "filter is_active (panels c) =
      filter (\<lambda>p. data_idx p = Some (dataset_active c)) (panels c)"
    unfolding panels_track_def by (rule filter_cong_map)
  with assms(2) show ?thesis
    by (fastforce simp add: filter_empty_conv image_iff)
qed

lemma first_panel_default:
  assumes "chaptersBG (Some ch) = Running c ms"
    and "chapter_markers ch = []"
    and "list_all (\<lambda>p. \<not> truthy (data_idx p)) (chap_content ch)"
    and "\<not> truthy (data_active ch)"
  shows "map is_active (panels c) = map (\<lambda>i. i = 0) [0..<length (chap_content ch)]"
proof -
  have ne: "chap_content ch \<noteq> []"
    using assms(1,2) by (auto simp add: chaptersBG_def Let_def split: if_splits)
  have one: "or_else (data_active ch) ''1'' = ''1''"
    using assms(4) by (cases "data_active ch") (simp_all add: or_else_def)
  have "panels c = map (\<lambda>p. classList_toggle ''is-active'' (data_idx p = Some ''1'') p)
      (map (\<lambda>(i, p). index_panel i p) (enumerate 0 (chap_content ch)))"
    using assms(1,2) ne by (auto simp add: chaptersBG_def Let_def one setActivePanel_fields split: if_splits)
  then have "map is_active (panels c) =
      map (\<lambda>(i, p). data_idx (index_panel i p) = Some ''1'') (enumerate 0 (chap_content ch))"
    by (simp add: comp_def case_prod_unfold)
  also have "\<dots> = map (\<lambda>(i, p). i = 0) (enumerate 0 (chap_content ch))"
  proof (rule map_cong [OF refl])
    fix x assume "x \<in> set (enumerate 0 (chap_content ch))"
    then have "fst x < length (chap_content ch)" and "chap_content ch ! fst x = snd x"
      by (simp_all add: in_set_enumerate_eq)
    then have "snd x \<in> set (chap_content ch)"
      by (metis nth_mem)
    with assms(3) have "\<not> truthy (data_idx (snd x))"
      by (simp add: list_all_iff)
    then show "(case x of (i, p) \<Rightarrow> data_idx (index_panel i p) = Some ''1'') = (case x of (i, p) \<Rightarrow> i = 0)"
      by (cases x) (simp add: index_panel_def String_of_nat_eq_1)
  qed
  also have "\<dots> = map ((\<lambda>i. i = 0) \<circ> fst) (enumerate 0 (chap_content ch))"
    by (simp add: comp_def case_prod_unfold)
  also have "\<dots> = map (\<lambda>i. i = 0) (map fst (enumerate 0 (chap_content ch)))"
    by (simp only: map_map)
  also have "\<dots> = map (\<lambda>i. i = 0) [0..<length (chap_content ch)]"
    by (simp add: map_fst_enumerate)
  finally show ?thesis .
qed

text \<open>
  Claim C6 asks for exactly one current panel after every entry, whatever the
  attributes of the markers, and for the first panel current by default at the start.
  On a block whose first marker has an image and no \<^verbatim>\<open>data-idx\<close>, panel 1 is current at
  the start, and after that marker has entered no panel is current and
  \<^verbatim>\<open>chapters.dataset.active\<close> is the empty string. On a block whose author wrote the
  marker and whose panels have no \<^verbatim>\<open>data-idx\<close>, the index at the start is \<^verbatim>\<open>1\<close> and no
  panel is current. On a block with \<^verbatim>\<open>data-active="2"\<close> the second panel is current at
  the start, not the first.
\<close>

theorem one_current_panel_counterexample:
  "chaptersBG (Some authored_chapters) = Running authored_start (chapter_markers authored_chapters)
   \<and> map is_active (panels authored_start) = [True, False]
   \<and> map is_active (panels (chaptersBG_entry css_none authored_start
        (entered (chapter_marker None (Some ''a.jpg''))))) = [False, False]
   \<and> dataset_active (chaptersBG_entry css_none authored_start
        (entered (chapter_marker None (Some ''a.jpg'')))) = []
   \<and> length (filter is_active (panels (chaptersBG_entry css_none authored_start
        (entered (chapter_marker None (Some ''a.jpg'')))))) = 0
   \<and> (case chaptersBG (Some unindexed_chapters) of
        NotStarted x \<Rightarrow> False
      | Running c ms \<Rightarrow> dataset_active c = ''1'' \<and> map is_active (panels c) = [False, False])
   \<and> (case chaptersBG (Some preset_chapters) of
        NotStarted x \<Rightarrow> False
      | Running c ms \<Rightarrow> dataset_active c = ''2'' \<and> map is_active (panels c) = [False, True])"
proof -
  let ?e = "entered (chapter_marker None (Some ''a.jpg''))"
  have h: "isIntersecting ?e" "data_bg (target ?e) = Some ''a.jpg''" "data_idx (target ?e) = None"
    by (simp_all add: entered_def chapter_marker_def)
  have n: "\<not> str_includes (style_backgroundImage (c_active_layer authored_start)) ''a.jpg''"
    by (simp add: authored_start_def c_active_layer_def el_def)
  have "chaptersBG_entry css_none authored_start ?e =
      setActivePanel [] (c_swap_layers css_none ''a.jpg'' authored_start)"
    using chaptersBG_entry_swap [OF h(1) h(2) _ n] h(3) by (simp add: or_else_def)
  then have m: "map is_active (panels (chaptersBG_entry css_none authored_start ?e)) =
       map (\<lambda>p. data_idx p = Some []) (panels authored_start)"
    and d: "dataset_active (chaptersBG_entry css_none authored_start ?e) = []"
    by (simp_all add: setActivePanel_current setActivePanel_fields c_swap_layers_fields)
  have p: "map (\<lambda>p. data_idx p = Some []) (panels authored_start) = [False, False]"
    "map is_active (panels authored_start) = [True, False]"
    by (simp_all add: authored_start_def el_def is_active_def classList_contains_def)
  have "filter id (map is_active (panels (chaptersBG_entry css_none authored_start ?e))) = []"
    by (simp add: m p)
  then have f: "filter is_active (panels (chaptersBG_entry css_none authored_start ?e)) = []"
    by (simp add: filter_map comp_def)
  have u: "case chaptersBG (Some unindexed_chapters) of
        NotStarted x \<Rightarrow> False
      | Running c ms \<Rightarrow> dataset_active c = ''1'' \<and> map is_active (panels c) = [False, False]"
    by (simp add: chaptersBG_def unindexed_chapters_def Let_def chapter_marker_def panel_def
        or_else_def setActivePanel_fields setActivePanel_current)
  have r: "case chaptersBG (Some preset_chapters) of
        NotStarted x \<Rightarrow> False
      | Running c ms \<Rightarrow> dataset_active c = ''2'' \<and> map is_active (panels c) = [False, True]"
    by (simp add: chaptersBG_def preset_chapters_def pinned_chapters_def Let_def panel_def
        or_else_def setActivePanel_fields setActivePanel_current enumerate_eq_zip index_panel_def
        el_def String_of_nat_1)
  show ?thesis
    using authored_setup m p d f u r by simp
qed

text \<open>
  Claim C6, as amended. When \<^verbatim>\<open>chaptersBG\<close> starts, \<^verbatim>\<open>chapters.dataset.active\<close> is the
  \<^verbatim>\<open>data-active\<close> attribute, or \<^verbatim>\<open>1\<close> when the block has none or an empty one, and the
  panels marked current are those whose \<^verbatim>\<open>data-idx\<close> is that index; when the block has
  no \<^verbatim>\<open>.chapter\<close> marker, no panel has a \<^verbatim>\<open>data-idx\<close> and there is no \<^verbatim>\<open>data-active\<close>,
  this is the first panel and no other. The callback keeps the current panels those of
  \<^verbatim>\<open>chapters.dataset.active\<close>. A marker that enters with an image sets that index to
  its \<^verbatim>\<open>data-idx\<close>, or to the empty string when it has none, and leaves the \<^verbatim>\<open>data-idx\<close>
  of the panels as they are. So exactly one panel is current when the indices of the
  panels are distinct and one of them is the index, and none is current when no panel
  has the index. \<^verbatim>\<open>setActivePanel\<close> twice with one index is \<^verbatim>\<open>setActivePanel\<close> once.
\<close>

theorem current_panel_tracks_marker:
  "(chaptersBG (Some ch) = Running c0 ms \<longrightarrow>
      dataset_active c0 = or_else (data_active ch) ''1'' \<and> panels_track c0)
   \<and> (chaptersBG (Some ch) = Running c0 ms \<and> chapter_markers ch = []
        \<and> list_all (\<lambda>p. \<not> truthy (data_idx p)) (chap_content ch) \<and> \<not> truthy (data_active ch) \<longrightarrow>
      map is_active (panels c0) = map (\<lambda>i. i = 0) [0..<length (chap_content ch)])
   \<and> (panels_track c \<longrightarrow> panels_track (chaptersBG_callback css c es))
   \<and> (isIntersecting e \<and> truthy (data_bg (target e)) \<longrightarrow>
      dataset_active (chaptersBG_entry css c e) = or_else (data_idx (target e)) []
      \<and> panels_track (chaptersBG_entry css c e)
      \<and> map data_idx (panels (chaptersBG_entry css c e)) = map data_idx (panels c))
   \<and> (panels_track c \<and> distinct (map data_idx (panels c))
        \<and> Some (dataset_active c) \<in> set (map data_idx (panels c)) \<longrightarrow>
      length (filter is_active (panels c)) = 1)
   \<and> (panels_track c \<and> Some (dataset_active c) \<notin> set (map data_idx (panels c)) \<longrightarrow>
      filter is_active (panels c) = [])
   \<and> setActivePanel idx (setActivePanel idx c) = setActivePanel idx c"
proof -
  have "isIntersecting e \<and> truthy (data_bg (target e)) \<longrightarrow>
      dataset_active (chaptersBG_entry css c e) = or_else (data_idx (target e)) []
      \<and> panels_track (chaptersBG_entry css c e)
      \<and> map data_idx (panels (chaptersBG_entry css c e)) = map data_idx (panels c)"
    by (simp add: chaptersBG_entry_def Let_def setActivePanel_fields panels_track_setActivePanel
        c_swap_layers_fields comp_def)
  then show ?thesis
    using dataset_active_start [of ch c0 ms] panels_track_start [of "Some ch" c0 ms]
      first_panel_default [of ch c0 ms] panels_track_callback [of c css es]
      panels_track_one [of c] panels_track_none [of c] setActivePanel_idem [of idx c]
    by blast
qed

text \<open>
  Claim C6, as amended, on the block with two panels: panel 1 alone is current at the
  start, and panel 2 alone after the second marker has entered.
\<close>

theorem current_panel_tracks_marker_witness:
  "chaptersBG (Some pinned_chapters) = Running pinned_start [pinned_S1, pinned_S2]
   \<and> dataset_active pinned_start = ''1''
   \<and> map is_active (panels pinned_start) = [True, False]
   \<and> panels_track (chaptersBG_callback css_none pinned_start [entered pinned_S2])
   \<and> dataset_active (chaptersBG_entry css_none pinned_start (entered pinned_S2)) = ''2''
   \<and> length (filter is_active (panels pinned_start)) = 1
   \<and> length (filter is_active (panels (chaptersBG_entry css_none pinned_start (entered pinned_S2)))) = 1
   \<and> setActivePanel ''2'' (setActivePanel ''2'' pinned_start) = setActivePanel ''2'' pinned_start"
proof -
  let ?e = "entered pinned_S2"
  let ?c = "chaptersBG_entry css_none pinned_start ?e"
  note t1 = current_panel_tracks_marker [of pinned_chapters pinned_start "[pinned_S1, pinned_S2]"
      pinned_start css_none "[?e]" ?e "''2''"]
  note t2 = current_panel_tracks_marker [of pinned_chapters pinned_start "[pinned_S1, pinned_S2]"
      ?c css_none "[?e]" ?e "''2''"]
  have h: "chapter_markers pinned_chapters = []"
    "list_all (\<lambda>p. \<not> truthy (data_idx p)) (chap_content pinned_chapters)"
    "\<not> truthy (data_active pinned_chapters)"
    "length (chap_content pinned_chapters) = 2"
    by (simp_all add: pinned_chapters_def panel_def el_def)
  have e: "isIntersecting ?e" "truthy (data_bg (target ?e))" "data_idx (target ?e) = Some ''2''"
    by (simp_all add: entered_def pinned_S2_def)
  have d: "map data_idx (panels pinned_start) = [Some ''1'', Some ''2'']"
    by (simp add: pinned_start_def)
  have u: "[0..<2] = [0, Suc 0]"
    by (simp add: upt_rec)
  from t1 pinned_setup h have a: "dataset_active pinned_start = ''1''" "panels_track pinned_start"
    "map is_active (panels pinned_start) = [True, False]"
    by (simp_all add: or_else_def truthy_def u split: option.splits)
  from t1 a have b: "panels_track (chaptersBG_callback css_none pinned_start [?e])"
    by simp
  from t1 e have c: "dataset_active ?c = ''2''" "panels_track ?c"
    "map data_idx (panels ?c) = map data_idx (panels pinned_start)"
    by simp_all
  from t1 a d have one: "length (filter is_active (panels pinned_start)) = 1"
    by simp
  from t2 c d have one': "length (filter is_active (panels ?c)) = 1"
    by simp
  from t1 have "setActivePanel ''2'' (setActivePanel ''2'' pinned_start) = setActivePanel ''2'' pinned_start"
    by simp
  with pinned_setup a b c one one' show ?thesis
    by simp
qed


subsection \<open>Entries without an image\<close>

text \<open>
  Claim C7. An entry whose marker has no \<^verbatim>\<open>data-bg\<close> attribute, or an empty one, is
  ignored by both variants: the state after the entry, which holds the layers, the
  overlay, the panels and the preloads requested, is the state before it.
\<close>

theorem ignored_without_image:
  assumes "\<not> truthy (data_bg (target e))"
  shows "globalBG_entry css s e = s \<and> chaptersBG_entry css c e = c"
  using assms by (simp add: globalBG_entry_def chaptersBG_entry_def Let_def)

text \<open>Claim C7: a marker with an empty \<^verbatim>\<open>data-bg\<close> and a marker without one, in both variants.\<close>

theorem ignored_without_image_witness:
  "\<not> truthy (data_bg (target (entered (marker (Some ''3'') (Some []) (Some ''red'')))))
   \<and> globalBG_entry css_none crossfade_start (entered (marker (Some ''3'') (Some []) (Some ''red''))) =
       crossfade_start
   \<and> chaptersBG_entry css_none pinned_start (entered (marker (Some ''3'') (Some []) (Some ''red''))) =
       pinned_start
   \<and> \<not> truthy (data_bg (target (entered (chapter_marker (Some ''2'') None))))
   \<and> globalBG_entry css_none crossfade_start (entered (chapter_marker (Some ''2'') None)) = crossfade_start
   \<and> chaptersBG_entry css_none pinned_start (entered (chapter_marker (Some ''2'') None)) = pinned_start"
proof -
  have a: "\<not> truthy (data_bg (target (entered (marker (Some ''3'') (Some []) (Some ''red'')))))"
    and b: "\<not> truthy (data_bg (target (entered (chapter_marker (Some ''2'') None))))"
    by (simp_all add: entered_def marker_def chapter_marker_def)
  show ?thesis
    using a b ignored_without_image [OF a, of css_none crossfade_start pinned_start]
      ignored_without_image [OF b, of css_none crossfade_start pinned_start]
    by simp
qed


subsection \<open>The height of observed markers\<close>

text \<open>
  Variant A gives every marker without an inline height \<^verbatim>\<open>120px\<close> before it observes
  it, and the markers that variant B creates have the height \<^verbatim>\<open>140vh\<close>.
\<close>

lemma globalBG_observed_sized:
  "list_all (\<lambda>m. style_height m \<noteq> []) (observed (globalBG css r ms))"
  by (auto simp add: globalBG_def observed_def list_all_iff split: option.splits)

lemma chaptersBG_synth_sized:
  assumes "chapter_markers ch = []"
  shows "list_all (\<lambda>m. style_height m = ''140vh'') (observed (chaptersBG (Some ch)))"
  using assms
  by (auto simp add: chaptersBG_def observed_def Let_def list_all_iff synth_marker_def)

text \<open>
  Claim C8 asks for a default height in both variants. The markers of a \<^verbatim>\<open>.chapters\<close>
  block that its author wrote are observed as they are: on \<open>authored_chapters\<close> both
  observed markers have no inline height.
\<close>

theorem authored_chapter_markers_unsized:
  "chapter_markers authored_chapters =
     [chapter_marker None (Some ''a.jpg''), chapter_marker (Some ''2'') (Some ''b.jpg'')]
   \<and> observed (chaptersBG (Some authored_chapters)) = chapter_markers authored_chapters
   \<and> map style_height (observed (chaptersBG (Some authored_chapters))) = [[], []]"
  by (simp add: authored_setup observed_def)
    (simp add: authored_chapters_def chapter_marker_def el_def)


subsection \<open>Reduced motion\<close>

lemma deliver_not_started:
  assumes "variantA g = NotStarted x" and "variantB g = NotStarted y"
  shows "deliver css g b = g"
  using assms by (simp add: deliver_def split: batch.splits)

lemma run_not_started:
  assumes "variantA g = NotStarted x" and "variantB g = NotStarted y"
  shows "foldl (deliver css) g bs = g"
  using assms by (induction bs) (simp_all add: deliver_not_started)

text \<open>
  Claim C9. With the reduced-motion preference, \<^verbatim>\<open>scrollDrivenBackground\<close> starts
  neither variant: no marker is observed, and after any batches of entries the page is
  as it was given, with its layers, overlay and panels untouched.
\<close>

theorem reduced_motion_static:
  "foldl (deliver css) (scrollDrivenBackground css True d) bs =
     \<lparr>variantA = NotStarted (global_bg d, bg_chapter d), variantB = NotStarted (chapters d)\<rparr>
   \<and> observed (variantA (foldl (deliver css) (scrollDrivenBackground css True d) bs)) = []
   \<and> observed (variantB (foldl (deliver css) (scrollDrivenBackground css True d) bs)) = []"
proof -
  have "foldl (deliver css) (scrollDrivenBackground css True d) bs = scrollDrivenBackground css True d"
    by (rule run_not_started) (simp_all add: scrollDrivenBackground_def)
  then show ?thesis
    by (simp add: scrollDrivenBackground_def observed_def)
qed


subsection \<open>The tint of the overlay\<close>

text \<open>
  Claim C10. In the global variant an entry whose marker has no \<^verbatim>\<open>data-tint\<close>
  attribute, or an empty one, leaves the overlay as it is, whether or not the entry
  swaps the layers.
\<close>

theorem tint_kept_without_tint:
  assumes "\<not> truthy (data_tint (target e))"
  shows "overlay (globalBG_entry css s e) = overlay s"
  using assms
  by (simp add: globalBG_entry_def Let_def set_tint_fields swap_layers_fields split: option.splits)

text \<open>Claim C10: an entry with an empty tint that swaps the layers and keeps the overlay.\<close>

theorem tint_kept_without_tint_witness:
  "\<not> truthy (data_tint (target (entered (marker None (Some ''white.jpeg'') (Some [])))))
   \<and> useA (globalBG_entry css_none crossfade_start (entered (marker None (Some ''white.jpeg'') (Some [])))) \<noteq>
      useA crossfade_start
   \<and> overlay (globalBG_entry css_none crossfade_start (entered (marker None (Some ''white.jpeg'') (Some [])))) =
      overlay crossfade_start"
proof -
  let ?e = "entered (marker None (Some ''white.jpeg'') (Some []))"
  have h: "\<not> truthy (data_tint (target ?e))"
    by (simp add: entered_def marker_def)
  have h1: "isIntersecting ?e" and h2: "data_bg (target ?e) = Some ''white.jpeg''"
    by (simp_all add: entered_def marker_def)
  have h4: "\<not> str_includes (style_backgroundImage (active_layer crossfade_start)) ''white.jpeg''"
    by (simp add: active_layer_def crossfade_start_def scenario_url_text)
  have "globalBG_entry css_none crossfade_start ?e =
      set_tint (or_null (data_tint (target ?e))) (swap_layers css_none ''white.jpeg'' crossfade_start)"
    using h1 h2 h4 by (intro globalBG_entry_swap) simp_all
  then have "useA (globalBG_entry css_none crossfade_start ?e) \<noteq> useA crossfade_start"
    by (simp add: set_tint_fields swap_layers_fields)
  then show ?thesis
    using h tint_kept_without_tint [OF h, of css_none crossfade_start] by simp
qed


end
